theory Spec2Isabelle
  imports Complex_Main "HOL-Library.Product_Lexorder"
begin

section \<open>Python floats\<close>

text \<open>
  A Python \<open>float\<close> is an IEEE 754 binary64 value: a finite double, an infinity or
  NaN.  The sign of zero is not kept: no operation of the modelled code tells \<open>-0.0\<close>
  from \<open>0.0\<close>.
\<close>

datatype pyfloat = Fin real | PInf | NInf | NaN

text \<open>Rounding to the nearest integer, ties to the even one.\<close>

definition round_half_even :: "real \<Rightarrow> int" where
  "round_half_even x =
     (let f = \<lfloor>x\<rfloor>; d = x - of_int f
      in if d < 1 / 2 then f
         else if 1 / 2 < d then f + 1
         else if even f then f else f + 1)"

text \<open>
  The exponent of the binade of a non-zero real, not below that of the subnormal
  numbers; doubles of that binade are the multiples of \<open>2 powi (binade x - 52)\<close>.
\<close>

definition binade :: "real \<Rightarrow> int" where
  "binade x = max (- 1022) \<lfloor>log 2 \<bar>x\<bar>\<rfloor>"

definition quantum :: "real \<Rightarrow> real" where
  "quantum x = 2 powi (binade x - 52)"

text \<open>The multiple of the quantum nearest to \<open>x\<close>, ties to the even multiple.\<close>

definition round_value :: "real \<Rightarrow> real" where
  "round_value x = of_int (round_half_even (x / quantum x)) * quantum x"

text \<open>
  The result of an arithmetic operation whose exact value is \<open>x\<close>: the nearest double,
  ties to even, an infinity on overflow.
\<close>

definition round_double :: "real \<Rightarrow> pyfloat" where
  "round_double x =
     (if x = 0 then Fin 0
      else if 2 ^ 1024 \<le> \<bar>round_value x\<bar> then (if 0 < x then PInf else NInf)
      else Fin (round_value x))"

fun fneg :: "pyfloat \<Rightarrow> pyfloat" where
  "fneg (Fin a) = Fin (- a)"
| "fneg PInf = NInf"
| "fneg NInf = PInf"
| "fneg NaN = NaN"

fun fadd :: "pyfloat \<Rightarrow> pyfloat \<Rightarrow> pyfloat" where
  "fadd (Fin a) (Fin b) = round_double (a + b)"
| "fadd NaN y = NaN"
| "fadd x NaN = NaN"
| "fadd PInf NInf = NaN"
| "fadd NInf PInf = NaN"
| "fadd PInf y = PInf"
| "fadd NInf y = NInf"
| "fadd x PInf = PInf"
| "fadd x NInf = NInf"

definition fsub :: "pyfloat \<Rightarrow> pyfloat \<Rightarrow> pyfloat" where
  "fsub x y = fadd x (fneg y)"

text \<open>The sign of a float that is not NaN: -1, 0 or 1.\<close>

fun fsgn :: "pyfloat \<Rightarrow> int" where
  "fsgn (Fin a) = (if a < 0 then - 1 else if a = 0 then 0 else 1)"
| "fsgn PInf = 1"
| "fsgn NInf = - 1"
| "fsgn NaN = 0"

fun fmul :: "pyfloat \<Rightarrow> pyfloat \<Rightarrow> pyfloat" where
  "fmul (Fin a) (Fin b) = round_double (a * b)"
| "fmul NaN y = NaN"
| "fmul x NaN = NaN"
| "fmul x y =
     (if fsgn x * fsgn y = 0 then NaN
      else if 0 < fsgn x * fsgn y then PInf else NInf)"

datatype py_exception =
    ValueErrorExc string
  | TypeErrorExc
  | OverflowErrorExc
  | ZeroDivisionErrorExc
  | IndexErrorExc
  | ProcessLookupErrorExc

text \<open>\<open>x / y\<close> on floats; a zero divisor raises.\<close>

fun fdiv :: "pyfloat \<Rightarrow> pyfloat \<Rightarrow> py_exception + pyfloat" where
  "fdiv x (Fin b) =
     (if b = 0 then Inl ZeroDivisionErrorExc
      else case x of
             Fin a \<Rightarrow> Inr (round_double (a / b))
           | NaN \<Rightarrow> Inr NaN
           | PInf \<Rightarrow> Inr (if 0 < b then PInf else NInf)
           | NInf \<Rightarrow> Inr (if 0 < b then NInf else PInf))"
| "fdiv x NaN = Inr NaN"
| "fdiv (Fin a) y = Inr (Fin 0)"
| "fdiv x y = Inr NaN"

text \<open>The comparisons \<open><\<close>, \<open><=\<close> and \<open>==\<close> on floats; each is false on NaN.\<close>

fun flt :: "pyfloat \<Rightarrow> pyfloat \<Rightarrow> bool" where
  "flt (Fin a) (Fin b) = (a < b)"
| "flt NaN y = False"
| "flt x NaN = False"
| "flt x NInf = False"
| "flt PInf y = False"
| "flt x y = True"

fun feq :: "pyfloat \<Rightarrow> pyfloat \<Rightarrow> bool" where
  "feq NaN y = False"
| "feq x NaN = False"
| "feq x y = (x = y)"

definition fle :: "pyfloat \<Rightarrow> pyfloat \<Rightarrow> bool" where
  "fle x y = (flt x y \<or> feq x y)"

text \<open>\<open>max(a, b)\<close>: the first argument unless the second is greater.\<close>

definition py_max :: "pyfloat \<Rightarrow> pyfloat \<Rightarrow> pyfloat" where
  "py_max a b = (if flt a b then b else a)"

fun isfinite :: "pyfloat \<Rightarrow> bool" where
  "isfinite (Fin a) = True"
| "isfinite x = False"

text \<open>\<open>float(i)\<close> on an int: correctly rounded, \<open>OverflowError\<close> beyond the doubles.\<close>

definition float_of_int :: "int \<Rightarrow> py_exception + pyfloat" where
  "float_of_int i =
     (case round_double (of_int i) of
        Fin y \<Rightarrow> Inr (Fin y)
      | other \<Rightarrow> Inl OverflowErrorExc)"

text \<open>
  \<open>x % y\<close> on floats: the C \<open>fmod\<close>, which is exact and has the sign of \<open>x\<close>, moved
  to the sign of \<open>y\<close>; a zero divisor raises.
\<close>

definition trunc_zero :: "real \<Rightarrow> int" where
  "trunc_zero z = (if 0 \<le> z then \<lfloor>z\<rfloor> else \<lceil>z\<rceil>)"

fun fmod_py :: "pyfloat \<Rightarrow> pyfloat \<Rightarrow> py_exception + pyfloat" where
  "fmod_py x (Fin b) =
     (if b = 0 then Inl ZeroDivisionErrorExc
      else case x of
             Fin a \<Rightarrow>
               (let m = a - b * of_int (trunc_zero (a / b))
                in if m \<noteq> 0 \<and> ((b < 0) \<noteq> (m < 0)) then Inr (fadd (Fin m) (Fin b))
                   else Inr (Fin m))
           | other \<Rightarrow> Inr NaN)"
| "fmod_py x NaN = Inr NaN"
| "fmod_py (Fin a) PInf = Inr (if a < 0 then PInf else Fin a)"
| "fmod_py (Fin a) NInf = Inr (if 0 < a then NInf else Fin a)"
| "fmod_py x y = Inr NaN"

text \<open>The doubles \<open>math.pi\<close> and \<open>0.1\<close>.\<close>

definition math_pi :: real where
  "math_pi = 884279719003555 / 2 ^ 48"

definition double_0_1 :: real where
  "double_0_1 = 3602879701896397 / 2 ^ 55"

section \<open>Configuration values\<close>

text \<open>
  Run and distribution configurations arrive as untyped Python values (the result of
  decoding a JSON request body).  A \<open>dict\<close> is an association list read with
  \<^const>\<open>map_of\<close>.
\<close>

datatype pyval =
    PNone
  | PBool bool
  | PInt int
  | PFloat pyfloat
  | PStr string
  | PList "pyval list"
  | PDict "(string \<times> pyval) list"

type_synonym pydict = "(string \<times> pyval) list"

section \<open>Distribution plugins (distributions/)\<close>

subsection \<open>Python and library functions\<close>

text \<open>
  Five functions of the Python and C libraries are parameters of the model:
  \<open>float(s)\<close> on a string (\<open>None\<close> when it raises \<open>ValueError\<close>; it accepts \<open>nan\<close> and
  \<open>inf\<close>); \<open>json.loads(s)\<close> (\<open>None\<close> when it raises); the sine of the C library on a
  finite double; \<open>sum\<close> on a non-empty list of floats, whose rounding depends on the
  version of the interpreter (added from left to right up to Python 3.11, with a
  compensated sum from 3.12); and \<open>sorted\<close> on a list of pairs in which a NaN occurs,
  where the comparisons are no order and the result depends on the sorting algorithm.
\<close>

record pylib =
  float_of_str :: "string \<Rightarrow> pyfloat option"
  json_loads :: "string \<Rightarrow> pyval option"
  libm_sin :: "real \<Rightarrow> real"
  float_sum :: "pyfloat list \<Rightarrow> pyfloat"
  sorted_unordered :: "(pyfloat \<times> pyfloat) list \<Rightarrow> (pyfloat \<times> pyfloat) list"

definition dict_get :: "pydict \<Rightarrow> string \<Rightarrow> pyval" where
  "dict_get d k = (case map_of d k of None \<Rightarrow> PNone | Some v \<Rightarrow> v)"

definition dict_has :: "pydict \<Rightarrow> string \<Rightarrow> bool" where
  "dict_has d k = (map_of d k \<noteq> None)"

fun dict_set :: "pydict \<Rightarrow> string \<Rightarrow> pyval \<Rightarrow> pydict" where
  "dict_set [] k v = [(k, v)]"
| "dict_set ((k', v') # d) k v = (if k' = k then (k, v) # d else (k', v') # dict_set d k v)"

text \<open>The truth value of a float: false on zero only.\<close>

fun ftruthy :: "pyfloat \<Rightarrow> bool" where
  "ftruthy (Fin a) = (a \<noteq> 0)"
| "ftruthy x = True"

fun py_truthy :: "pyval \<Rightarrow> bool" where
  "py_truthy PNone = False"
| "py_truthy (PBool b) = b"
| "py_truthy (PInt i) = (i \<noteq> 0)"
| "py_truthy (PFloat x) = ftruthy x"
| "py_truthy (PStr s) = (s \<noteq> [])"
| "py_truthy (PList xs) = (xs \<noteq> [])"
| "py_truthy (PDict d) = (d \<noteq> [])"

text \<open>
  \<open>float(v)\<close>: \<open>ValueError\<close> on a string that is no number, \<open>TypeError\<close> on \<open>None\<close>, a
  list or a dict, \<open>OverflowError\<close> on an int beyond the doubles.  The text of the
  \<open>ValueError\<close> is not modelled; every caller catches it.
\<close>

fun py_float :: "pylib \<Rightarrow> pyval \<Rightarrow> py_exception + pyfloat" where
  "py_float lib (PBool b) = Inr (Fin (if b then 1 else 0))"
| "py_float lib (PInt i) = float_of_int i"
| "py_float lib (PFloat x) = Inr x"
| "py_float lib (PStr s) =
     (case float_of_str lib s of
        Some x \<Rightarrow> Inr x
      | None \<Rightarrow> Inl (ValueErrorExc ''could not convert string to float''))"
| "py_float lib v = Inl TypeErrorExc"

text \<open>The handler \<open>except (ValueError, TypeError)\<close>.\<close>

fun caught :: "py_exception \<Rightarrow> bool" where
  "caught (ValueErrorExc m) = True"
| "caught TypeErrorExc = True"
| "caught e = False"

text \<open>
  The unpacking \<open>t, r = v\<close>: a list or string of exactly two items, or a dict with two
  keys; \<open>None\<close> when it raises \<open>ValueError\<close> (another number of items) or \<open>TypeError\<close>
  (a value that cannot be iterated).
\<close>

fun unpack2 :: "pyval \<Rightarrow> (pyval \<times> pyval) option" where
  "unpack2 (PList [a, b]) = Some (a, b)"
| "unpack2 (PStr [a, b]) = Some (PStr [a], PStr [b])"
| "unpack2 (PDict [(k1, v1), (k2, v2)]) = Some (PStr k1, PStr k2)"
| "unpack2 v = None"

text \<open>\<open>isinstance(v, (int, float))\<close>; \<open>bool\<close> is a subclass of \<open>int\<close>.\<close>

fun is_number :: "pyval \<Rightarrow> bool" where
  "is_number (PBool b) = True"
| "is_number (PInt i) = True"
| "is_number (PFloat x) = True"
| "is_number v = False"

fun str_of_nat :: "nat \<Rightarrow> string" where
  "str_of_nat n =
     (if n < 10 then [''0123456789'' ! n]
      else str_of_nat (n div 10) @ [''0123456789'' ! (n mod 10)])"

text \<open>
  \<open>sum(xs)\<close> on a list of floats; the sum of the empty list is the int \<open>0\<close>, which
  compares like \<open>0.0\<close>.
\<close>

definition py_sum :: "pylib \<Rightarrow> pyfloat list \<Rightarrow> pyfloat" where
  "py_sum lib xs = (if xs = [] then Fin 0 else float_sum lib xs)"

text \<open>
  \<open>math.sin(x)\<close>: the sine of the C library on a finite double, NaN on NaN, and
  \<open>ValueError\<close> on an infinity (with this message up to Python 3.13).
\<close>

fun math_sin :: "pylib \<Rightarrow> pyfloat \<Rightarrow> py_exception + pyfloat" where
  "math_sin lib (Fin a) = Inr (Fin (libm_sin lib a))"
| "math_sin lib NaN = Inr NaN"
| "math_sin lib x = Inl (ValueErrorExc ''math domain error'')"

text \<open>
  \<open>random.gauss(mu, sigma)\<close> is \<open>mu + z * sigma\<close> for a standard normal draw \<open>z\<close>, a
  finite double.  The draws of one run are a sequence; an evaluator takes the sequence
  and returns what is left of it.
\<close>

type_synonym gauss = "nat \<Rightarrow> real"

definition random_gauss :: "pyfloat \<Rightarrow> pyfloat \<Rightarrow> gauss \<Rightarrow> pyfloat \<times> gauss" where
  "random_gauss mu sigma g = (fadd mu (fmul (Fin (g 0)) sigma), \<lambda>n. g (Suc n))"

text \<open>Evaluation of a list of computations from left to right, up to the first that raises.\<close>

fun sequence_exc :: "('e + 'a) list \<Rightarrow> 'e + 'a list" where
  "sequence_exc [] = Inr []"
| "sequence_exc (m # ms) =
     (case m of
        Inl e \<Rightarrow> Inl e
      | Inr x \<Rightarrow> (case sequence_exc ms of Inl e \<Rightarrow> Inl e | Inr xs \<Rightarrow> Inr (x # xs)))"

subsection \<open>utils.py\<close>

text \<open>
  \<open>to_float\<close> and \<open>parse_float\<close> catch \<open>ValueError\<close> and \<open>TypeError\<close>; the
  \<open>OverflowError\<close> of \<open>float\<close> on a large int passes through them.
\<close>

definition to_float :: "pylib \<Rightarrow> pyval \<Rightarrow> pyfloat option \<Rightarrow> py_exception + pyfloat option" where
  "to_float lib v default_value =
     (case v of
        PNone \<Rightarrow> Inr default_value
      | PBool b \<Rightarrow> Inr default_value
      | PList xs \<Rightarrow> Inr default_value
      | PDict d \<Rightarrow> Inr default_value
      | _ \<Rightarrow> (case py_float lib v of
                Inr x \<Rightarrow> Inr (Some x)
              | Inl e \<Rightarrow> if caught e then Inr default_value else Inl e))"

definition parse_float :: "pylib \<Rightarrow> pyval \<Rightarrow> pyfloat option \<Rightarrow>
    py_exception + (pyfloat option \<times> bool)" where
  "parse_float lib v default_value =
     (case v of
        PNone \<Rightarrow> Inr (default_value, True)
      | PBool b \<Rightarrow> Inr (default_value, False)
      | PList xs \<Rightarrow> Inr (default_value, False)
      | PDict d \<Rightarrow> Inr (default_value, False)
      | _ \<Rightarrow> (case py_float lib v of
                Inr x \<Rightarrow> Inr (Some x, True)
              | Inl e \<Rightarrow> if caught e then Inr (default_value, False) else Inl e))"

text \<open>
  \<open>typing.cast(float, v)\<close>.  Where the code casts, the default handed to \<open>parse_float\<close>
  is a float, so \<open>v\<close> is never \<open>None\<close> (lemma \<open>parse_float_Some\<close> below).
\<close>

definition cast_float :: "pyfloat option \<Rightarrow> pyfloat" where
  "cast_float v = (case v of Some x \<Rightarrow> x | None \<Rightarrow> Fin 0)"

text \<open>
  \<open>validate_numeric\<close> with \<open>finite=True\<close>, as every caller has it.  The value is a
  float or \<open>None\<close>, so the type test passes.
\<close>

definition validate_numeric :: "pyfloat option \<Rightarrow> bool \<Rightarrow> bool \<Rightarrow> bool \<Rightarrow> bool" where
  "validate_numeric v allow_none positive non_negative =
     (case v of
        None \<Rightarrow> allow_none
      | Some x \<Rightarrow>
          if \<not> isfinite x then False
          else if positive \<and> fle x (Fin 0) then False
          else if non_negative \<and> flt x (Fin 0) then False
          else True)"

definition parse_json_or_list :: "pylib \<Rightarrow> pyval \<Rightarrow> bool \<times> pyval" where
  "parse_json_or_list lib v =
     (case v of
        PNone \<Rightarrow> (True, PNone)
      | PStr s \<Rightarrow> (case json_loads lib s of Some d \<Rightarrow> (True, d) | None \<Rightarrow> (False, PNone))
      | PList xs \<Rightarrow> (True, v)
      | PDict d \<Rightarrow> (True, v)
      | _ \<Rightarrow> (False, PNone))"

subsection \<open>Plugin instances\<close>

text \<open>
  An instance after \<open>initialize\<close>, with the fields that \<open>get_rate\<close> and \<open>validate\<close>
  read; the last field is \<open>_parse_error\<close>.  The parallel lists of a composite, which
  \<open>initialize\<close> extends together, are one list of tuples: a mix holds
  (plugin, weight, target override) and its \<open>_normalized_weights\<close>, a sequence holds
  (plugin, duration); \<open>_stage_starts\<close> and \<open>_total_duration\<close> are computed from the
  durations by \<open>_finalize_stage_timeline\<close>.  The \<open>config\<close> attribute is always a dict,
  so \<open>_validate_config\<close> is true.
\<close>

datatype plugin =
    ConstantDistribution "pyfloat option" bool
  | LinearDistribution pyfloat bool
  | PoissonDistribution "pyfloat option" pyfloat bool
  | StepDistribution "(pyfloat \<times> pyfloat) list" pyfloat bool
  | SineDistribution pyfloat pyfloat pyfloat "pyfloat option" bool
  | MixDistribution "pyfloat option" "(plugin \<times> pyfloat \<times> pyfloat option) list" "pyfloat list" bool
  | SequenceDistribution string "(plugin \<times> pyfloat) list" bool

text \<open>
  An evaluator takes \<open>time_elapsed\<close>, \<open>target_rps\<close> and the draws, and returns the
  rate with the draws left, or the exception it raises.
\<close>

type_synonym rate_fn = "pyfloat \<Rightarrow> pyfloat \<Rightarrow> gauss \<Rightarrow> py_exception + (pyfloat \<times> gauss)"

subsection \<open>constant.py\<close>

definition constant_initialize :: "pylib \<Rightarrow> pydict \<Rightarrow> py_exception + plugin" where
  "constant_initialize lib config =
     (if config \<noteq> [] \<and> dict_has config ''rps''
      then case parse_float lib (dict_get config ''rps'') None of
             Inl e \<Rightarrow> Inl e
           | Inr (rps, parsed) \<Rightarrow> Inr (ConstantDistribution rps (\<not> parsed))
      else Inr (ConstantDistribution None False))"

definition constant_get_rate :: "pyfloat option \<Rightarrow> pyfloat \<Rightarrow> pyfloat \<Rightarrow> pyfloat" where
  "constant_get_rate rps time_elapsed target_rps =
     (case rps of
        Some x \<Rightarrow> if flt (Fin 0) x then x else py_max (Fin 0) target_rps
      | None \<Rightarrow> py_max (Fin 0) target_rps)"

definition constant_validate :: "pyfloat option \<Rightarrow> bool \<Rightarrow> bool" where
  "constant_validate rps parse_error =
     (if parse_error then False
      else if \<not> validate_numeric rps True True False then False
      else True)"

subsection \<open>linear.py\<close>

definition linear_initialize :: "pylib \<Rightarrow> pydict \<Rightarrow> py_exception + plugin" where
  "linear_initialize lib config =
     (if dict_has config ''ramp_duration''
      then case parse_float lib (dict_get config ''ramp_duration'') (Some (Fin 60)) of
             Inl e \<Rightarrow> Inl e
           | Inr (ramp_duration, parsed) \<Rightarrow>
               Inr (LinearDistribution (cast_float ramp_duration) (\<not> parsed))
      else Inr (LinearDistribution (Fin 60) False))"

definition linear_get_rate :: "pyfloat \<Rightarrow> pyfloat \<Rightarrow> pyfloat \<Rightarrow> py_exception + pyfloat" where
  "linear_get_rate ramp_duration time_elapsed target_rps =
     (if fle ramp_duration (Fin 0) then Inr target_rps
      else if fle ramp_duration time_elapsed then Inr target_rps
      else case fdiv time_elapsed ramp_duration of
             Inl e \<Rightarrow> Inl e
           | Inr progress \<Rightarrow> Inr (fmul progress target_rps))"

definition linear_validate :: "pyfloat \<Rightarrow> bool \<Rightarrow> bool" where
  "linear_validate ramp_duration parse_error =
     (if parse_error then False
      else if \<not> validate_numeric (Some ramp_duration) True True False then False
      else True)"

subsection \<open>poisson.py\<close>

definition poisson_initialize :: "pylib \<Rightarrow> pydict \<Rightarrow> py_exception + plugin" where
  "poisson_initialize lib config =
     (case (if config \<noteq> [] \<and> dict_has config ''lambda_param''
            then case parse_float lib (dict_get config ''lambda_param'') None of
                   Inl e \<Rightarrow> Inl e
                 | Inr (v, parsed) \<Rightarrow> Inr (v, \<not> parsed)
            else Inr (None, False)) of
        Inl e \<Rightarrow> Inl e
      | Inr (lambda_param, e1) \<Rightarrow>
          (case (if dict_has config ''variance_scale''
                 then case parse_float lib (dict_get config ''variance_scale'') (Some (Fin 1)) of
                        Inl e \<Rightarrow> Inl e
                      | Inr (v, parsed) \<Rightarrow> Inr (cast_float v, \<not> parsed)
                 else Inr (Fin 1, False)) of
             Inl e \<Rightarrow> Inl e
           | Inr (variance_scale, e2) \<Rightarrow>
               Inr (PoissonDistribution lambda_param variance_scale (e1 \<or> e2))))"

definition poisson_get_rate :: "pyfloat option \<Rightarrow> pyfloat \<Rightarrow> pyfloat \<Rightarrow> pyfloat \<Rightarrow> gauss \<Rightarrow>
    pyfloat \<times> gauss" where
  "poisson_get_rate lambda_param variance_scale time_elapsed target_rps g =
     (let effective = (case lambda_param of
                         Some x \<Rightarrow> if ftruthy x then x else target_rps
                       | None \<Rightarrow> target_rps)
      in if fle effective (Fin 0) then (Fin 0, g)
         else let (noise, g') = random_gauss (Fin 0) (fmul (Fin double_0_1) variance_scale) g
              in (py_max (Fin 0) (fmul effective (fadd (Fin 1) noise)), g'))"

definition poisson_validate :: "pyfloat option \<Rightarrow> pyfloat \<Rightarrow> bool \<Rightarrow> bool" where
  "poisson_validate lambda_param variance_scale parse_error =
     (if parse_error then False
      else if \<not> validate_numeric lambda_param True True False then False
      else if \<not> validate_numeric (Some variance_scale) False True False then False
      else True)"

subsection \<open>step.py\<close>

text \<open>
  The generator \<open>(float(t), float(r)) for t, r in steps_data\<close>, consumed from left to
  right: an exception that the handler catches (\<open>Inr None\<close>), one that it does not, or
  the pairs.
\<close>

fun step_pairs :: "pylib \<Rightarrow> pyval list \<Rightarrow> py_exception + (pyfloat \<times> pyfloat) list option" where
  "step_pairs lib [] = Inr (Some [])"
| "step_pairs lib (v # vs) =
     (case unpack2 v of
        None \<Rightarrow> Inr None
      | Some (t, r) \<Rightarrow>
          (case py_float lib t of
             Inl e \<Rightarrow> if caught e then Inr None else Inl e
           | Inr ft \<Rightarrow>
               (case py_float lib r of
                  Inl e \<Rightarrow> if caught e then Inr None else Inl e
                | Inr fr \<Rightarrow>
                    (case step_pairs lib vs of
                       Inl e \<Rightarrow> Inl e
                     | Inr None \<Rightarrow> Inr None
                     | Inr (Some pairs) \<Rightarrow> Inr (Some ((ft, fr) # pairs))))))"

text \<open>
  \<open>sorted\<close> on a list of pairs of floats.  Without NaN the pairs are ordered
  lexicographically, with the infinities at the ends.
\<close>

fun float_key :: "pyfloat \<Rightarrow> int \<times> real" where
  "float_key NInf = (- 1, 0)"
| "float_key (Fin a) = (0, a)"
| "float_key PInf = (1, 0)"
| "float_key NaN = (2, 0)"

definition step_key :: "pyfloat \<times> pyfloat \<Rightarrow> (int \<times> real) \<times> (int \<times> real)" where
  "step_key s = (float_key (fst s), float_key (snd s))"

definition py_sorted :: "pylib \<Rightarrow> (pyfloat \<times> pyfloat) list \<Rightarrow> (pyfloat \<times> pyfloat) list" where
  "py_sorted lib pairs =
     (if list_all (\<lambda>s. fst s \<noteq> NaN \<and> snd s \<noteq> NaN) pairs then sort_key step_key pairs
      else sorted_unordered lib pairs)"

text \<open>\<open>_parse_steps\<close>: the sorted steps and whether \<open>_parse_error\<close> was set.\<close>

definition parse_steps :: "pylib \<Rightarrow> pyval \<Rightarrow> py_exception + ((pyfloat \<times> pyfloat) list \<times> bool)" where
  "parse_steps lib steps_json =
     (if \<not> py_truthy steps_json then Inr ([], False)
      else case parse_json_or_list lib steps_json of
             (True, PList steps_data) \<Rightarrow>
               (case step_pairs lib steps_data of
                  Inl e \<Rightarrow> Inl e
                | Inr (Some pairs) \<Rightarrow> Inr (py_sorted lib pairs, False)
                | Inr None \<Rightarrow> Inr ([], True))
           | _ \<Rightarrow> Inr ([], True))"

definition step_initialize :: "pylib \<Rightarrow> pydict \<Rightarrow> py_exception + plugin" where
  "step_initialize lib config =
     (case (if dict_has config ''default_rps''
            then case parse_float lib (dict_get config ''default_rps'') (Some (Fin 0)) of
                   Inl e \<Rightarrow> Inl e
                 | Inr (v, parsed) \<Rightarrow> Inr (cast_float v, \<not> parsed)
            else Inr (Fin 0, False)) of
        Inl e \<Rightarrow> Inl e
      | Inr (default_rps, e1) \<Rightarrow>
          (case parse_steps lib (dict_get config ''steps'') of
             Inl e \<Rightarrow> Inl e
           | Inr (steps, e2) \<Rightarrow> Inr (StepDistribution steps default_rps (e1 \<or> e2))))"

text \<open>The loop of \<open>get_rate\<close> over the sorted steps, leaving at the first later step.\<close>

fun step_loop :: "(pyfloat \<times> pyfloat) list \<Rightarrow> pyfloat \<Rightarrow> pyfloat \<Rightarrow> pyfloat" where
  "step_loop [] time_elapsed rate = rate"
| "step_loop ((step_time, step_rate) # rest) time_elapsed rate =
     (if fle step_time time_elapsed then step_loop rest time_elapsed step_rate else rate)"

definition step_get_rate :: "(pyfloat \<times> pyfloat) list \<Rightarrow> pyfloat \<Rightarrow> bool \<Rightarrow> pyfloat \<Rightarrow> pyfloat \<Rightarrow>
    pyfloat" where
  "step_get_rate steps default_rps parse_error time_elapsed target_rps =
     (if parse_error then py_max (Fin 0) target_rps
      else if steps = [] then py_max (Fin 0) target_rps
      else py_max (Fin 0) (step_loop steps time_elapsed default_rps))"

fun is_valid_step :: "pyfloat \<times> pyfloat \<Rightarrow> pyfloat \<Rightarrow> bool \<times> pyfloat" where
  "is_valid_step (step_time, step_rate) prev_time =
     (if \<not> validate_numeric (Some step_time) False False True then (False, prev_time)
      else if \<not> validate_numeric (Some step_rate) False False True then (False, prev_time)
      else if fle step_time prev_time then (False, prev_time)
      else (True, step_time))"

fun steps_valid :: "(pyfloat \<times> pyfloat) list \<Rightarrow> pyfloat \<Rightarrow> bool" where
  "steps_valid [] prev_time = True"
| "steps_valid (s # rest) prev_time =
     (let (valid, prev_time') = is_valid_step s prev_time
      in if \<not> valid then False else steps_valid rest prev_time')"

definition step_validate :: "(pyfloat \<times> pyfloat) list \<Rightarrow> pyfloat \<Rightarrow> bool \<Rightarrow> bool" where
  "step_validate steps default_rps parse_error =
     (if parse_error then False
      else if \<not> validate_numeric (Some default_rps) False False True then False
      else if \<not> steps_valid steps (Fin (- 1)) then False
      else True)"

subsection \<open>sine.py\<close>

definition parse_required_float :: "pylib \<Rightarrow> pydict \<Rightarrow> string \<Rightarrow> pyfloat \<Rightarrow>
    py_exception + (pyfloat \<times> bool)" where
  "parse_required_float lib config key default_value =
     (if \<not> dict_has config key then Inr (default_value, False)
      else case parse_float lib (dict_get config key) (Some default_value) of
             Inl e \<Rightarrow> Inl e
           | Inr (v, parsed) \<Rightarrow> Inr (cast_float v, \<not> parsed))"

definition parse_optional_float :: "pylib \<Rightarrow> pydict \<Rightarrow> string \<Rightarrow>
    py_exception + (pyfloat option \<times> bool)" where
  "parse_optional_float lib config key =
     (if \<not> dict_has config key then Inr (None, False)
      else case parse_float lib (dict_get config key) None of
             Inl e \<Rightarrow> Inl e
           | Inr (v, parsed) \<Rightarrow> Inr (v, \<not> parsed))"

definition sine_initialize :: "pylib \<Rightarrow> pydict \<Rightarrow> py_exception + plugin" where
  "sine_initialize lib config =
     (case parse_required_float lib config ''period'' (Fin 3600) of
        Inl e \<Rightarrow> Inl e
      | Inr (period, e1) \<Rightarrow>
     (case parse_required_float lib config ''amplitude'' (Fin (1 / 2)) of
        Inl e \<Rightarrow> Inl e
      | Inr (amplitude, e2) \<Rightarrow>
     (case parse_required_float lib config ''phase_shift'' (Fin 0) of
        Inl e \<Rightarrow> Inl e
      | Inr (phase_shift, e3) \<Rightarrow>
     (case parse_optional_float lib config ''base_rps'' of
        Inl e \<Rightarrow> Inl e
      | Inr (base_rps, e4) \<Rightarrow>
          Inr (SineDistribution period amplitude phase_shift base_rps (e1 \<or> e2 \<or> e3 \<or> e4))))))"

definition sine_get_rate :: "pylib \<Rightarrow> pyfloat \<Rightarrow> pyfloat \<Rightarrow> pyfloat \<Rightarrow> pyfloat option \<Rightarrow>
    pyfloat \<Rightarrow> pyfloat \<Rightarrow> py_exception + pyfloat" where
  "sine_get_rate lib period amplitude phase_shift base_rps time_elapsed target_rps =
     (if fle period (Fin 0) then Inr target_rps
      else let base = (case base_rps of
                         Some x \<Rightarrow> if ftruthy x then x else target_rps
                       | None \<Rightarrow> target_rps)
           in case fdiv (fmul (fmul (Fin 2) (Fin math_pi)) (fadd time_elapsed phase_shift)) period of
                Inl e \<Rightarrow> Inl e
              | Inr angle \<Rightarrow>
                  (case math_sin lib angle of
                     Inl e \<Rightarrow> Inl e
                   | Inr s \<Rightarrow> Inr (fmul base (fadd (Fin 1) (fmul amplitude s)))))"

definition sine_validate :: "pyfloat \<Rightarrow> pyfloat \<Rightarrow> pyfloat \<Rightarrow> pyfloat option \<Rightarrow> bool \<Rightarrow> bool" where
  "sine_validate period amplitude phase_shift base_rps parse_error =
     (if parse_error then False
      else if \<not> validate_numeric (Some period) False True False then False
      else if \<not> validate_numeric (Some amplitude) False True False
              \<or> \<not> (flt (Fin 0) amplitude \<and> fle amplitude (Fin 1)) then False
      else if \<not> validate_numeric (Some phase_shift) False False True then False
      else if \<not> validate_numeric base_rps True True False then False
      else True)"

subsection \<open>mix.py\<close>

definition effective_target :: "pyfloat option \<Rightarrow> pyfloat option \<Rightarrow> pyfloat \<Rightarrow> pyfloat" where
  "effective_target mix_target_rps override target_rps =
     (case override of
        Some x \<Rightarrow> x
      | None \<Rightarrow> (case mix_target_rps of Some y \<Rightarrow> y | None \<Rightarrow> target_rps))"

definition set_normalized_weights :: "pylib \<Rightarrow> pyfloat list \<Rightarrow> py_exception + pyfloat list" where
  "set_normalized_weights lib component_weights =
     (let total_weight = py_sum lib component_weights
      in if fle total_weight (Fin 0) then Inr []
         else sequence_exc (map (\<lambda>weight. fdiv weight total_weight) component_weights))"

text \<open>
  The loop of \<open>get_rate\<close> over \<open>zip(plugins, normalized_weights, targets)\<close>; the
  children have been replaced by their evaluators.
\<close>

fun mix_loop :: "pyfloat option \<Rightarrow> ((rate_fn \<times> pyfloat \<times> pyfloat option) \<times> pyfloat) list \<Rightarrow>
    pyfloat \<Rightarrow> pyfloat \<Rightarrow> pyfloat \<Rightarrow> gauss \<Rightarrow> py_exception + (pyfloat \<times> gauss)" where
  "mix_loop mix_target_rps [] time_elapsed target_rps mixed_rate g = Inr (mixed_rate, g)"
| "mix_loop mix_target_rps (((plugin, w, override), weight) # rest) time_elapsed target_rps mixed_rate g =
     (case plugin time_elapsed (effective_target mix_target_rps override target_rps) g of
        Inl e \<Rightarrow> Inl e
      | Inr (component_rate, g') \<Rightarrow>
          mix_loop mix_target_rps rest time_elapsed target_rps
            (fadd mixed_rate (fmul weight component_rate)) g')"

definition mix_get_rate :: "pylib \<Rightarrow> pyfloat option \<Rightarrow> (rate_fn \<times> pyfloat \<times> pyfloat option) list \<Rightarrow>
    pyfloat list \<Rightarrow> bool \<Rightarrow> rate_fn" where
  "mix_get_rate lib mix_target_rps components normalized_weights parse_error time_elapsed target_rps g =
     (if parse_error \<or> components = [] \<or> normalized_weights = []
      then Inr (py_max (Fin 0) target_rps, g)
      else if fle (py_sum lib normalized_weights) (Fin 0) then Inr (py_max (Fin 0) target_rps, g)
      else case mix_loop mix_target_rps (zip components normalized_weights)
                  time_elapsed target_rps (Fin 0) g of
             Inl e \<Rightarrow> Inl e
           | Inr (mixed_rate, g') \<Rightarrow> Inr (py_max (Fin 0) mixed_rate, g'))"

text \<open>\<open>validate\<close> of a mix; the children have been replaced by their verdicts.\<close>

fun mix_component_valid :: "bool \<times> pyfloat \<times> pyfloat option \<Rightarrow> bool" where
  "mix_component_valid (plugin_valid, weight, target_override) =
     (if \<not> validate_numeric (Some weight) False True False then False
      else if \<not> validate_numeric target_override True True False then False
      else plugin_valid)"

definition mix_validate :: "pylib \<Rightarrow> pyfloat option \<Rightarrow> (bool \<times> pyfloat \<times> pyfloat option) list \<Rightarrow>
    pyfloat list \<Rightarrow> bool \<Rightarrow> bool" where
  "mix_validate lib mix_target_rps components normalized_weights parse_error =
     (if parse_error then False
      else if components = [] then False
      else if \<not> validate_numeric mix_target_rps True True False then False
      else if \<not> list_all mix_component_valid components then False
      else if normalized_weights = [] then False
      else if \<not> validate_numeric (Some (py_sum lib normalized_weights)) False True False then False
      else True)"

subsection \<open>sequence.py\<close>

text \<open>\<open>_finalize_stage_timeline\<close>: the stage starts and the total duration.\<close>

fun finalize_stage_timeline :: "pyfloat \<Rightarrow> pyfloat list \<Rightarrow> pyfloat list \<times> pyfloat" where
  "finalize_stage_timeline elapsed [] = ([], elapsed)"
| "finalize_stage_timeline elapsed (duration # rest) =
     (let (starts, total_d) = finalize_stage_timeline (fadd elapsed duration) rest
      in (elapsed # starts, total_d))"

definition stage_starts :: "pyfloat list \<Rightarrow> pyfloat list" where
  "stage_starts durations = fst (finalize_stage_timeline (Fin 0) durations)"

definition total_duration :: "pyfloat list \<Rightarrow> pyfloat" where
  "total_duration durations = snd (finalize_stage_timeline (Fin 0) durations)"

definition last_stage_index :: "'a list \<Rightarrow> int" where
  "last_stage_index stage_plugins = int (length stage_plugins) - 1"

definition elapsed_for_behavior :: "string \<Rightarrow> pyfloat \<Rightarrow> pyfloat \<Rightarrow> pyfloat \<Rightarrow>
    py_exception + (pyfloat \<times> pyfloat) option" where
  "elapsed_for_behavior post_behavior total_d elapsed target_rps =
     (if post_behavior = ''repeat''
      then case fmod_py elapsed total_d of
             Inl e \<Rightarrow> Inl e
           | Inr m \<Rightarrow> Inr (Some (m, target_rps))
      else if flt elapsed total_d then Inr (Some (elapsed, target_rps))
      else if post_behavior = ''zero'' then Inr (Some (elapsed, Fin 0))
      else if post_behavior = ''hold_last'' then Inr None
      else Inr (Some (elapsed, target_rps)))"

fun find_active_loop :: "nat \<Rightarrow> (pyfloat \<times> pyfloat) list \<Rightarrow> pyfloat \<Rightarrow> nat option" where
  "find_active_loop index [] elapsed = None"
| "find_active_loop index ((stage_start, duration) # rest) elapsed =
     (if flt elapsed (fadd stage_start duration) then Some index
      else find_active_loop (Suc index) rest elapsed)"

definition find_active_stage :: "pyfloat list \<Rightarrow> pyfloat list \<Rightarrow> pyfloat \<Rightarrow> int" where
  "find_active_stage starts durations elapsed =
     (case find_active_loop 0 (zip starts durations) elapsed of
        Some index \<Rightarrow> int index
      | None \<Rightarrow> last_stage_index durations)"

text \<open>
  \<open>_rate_for_stage\<close>; an index beyond the lists raises \<open>IndexError\<close>.  The index is
  \<open>_last_stage_index\<close> or comes from \<open>_find_active_stage\<close>, so it is at least -1.
\<close>

definition rate_for_stage :: "rate_fn list \<Rightarrow> pyfloat list \<Rightarrow> int \<Rightarrow> rate_fn" where
  "rate_for_stage stage_plugins starts index elapsed target_rps g =
     (if index < 0 then Inr (py_max (Fin 0) target_rps, g)
      else if length starts \<le> nat index \<or> length stage_plugins \<le> nat index
      then Inl IndexErrorExc
      else (stage_plugins ! nat index) (fsub elapsed (starts ! nat index)) target_rps g)"

definition sequence_get_rate :: "string \<Rightarrow> (rate_fn \<times> pyfloat) list \<Rightarrow> bool \<Rightarrow> rate_fn" where
  "sequence_get_rate post_behavior stages parse_error time_elapsed target_rps g =
     (let stage_plugins = map fst stages;
          durations = map snd stages;
          starts = stage_starts durations;
          total_d = total_duration durations
      in if parse_error \<or> stage_plugins = [] then Inr (py_max (Fin 0) target_rps, g)
         else if fle total_d (Fin 0) then Inr (py_max (Fin 0) target_rps, g)
         else case elapsed_for_behavior post_behavior total_d time_elapsed target_rps of
                Inl e \<Rightarrow> Inl e
              | Inr None \<Rightarrow>
                  rate_for_stage stage_plugins starts (last_stage_index stage_plugins)
                    time_elapsed target_rps g
              | Inr (Some (elapsed, fallback_rate)) \<Rightarrow>
                  if feq fallback_rate (Fin 0) then Inr (Fin 0, g)
                  else rate_for_stage stage_plugins starts
                         (find_active_stage starts durations elapsed) elapsed target_rps g)"

fun sequence_stage_valid :: "(bool \<times> pyfloat) \<times> pyfloat \<Rightarrow> bool" where
  "sequence_stage_valid ((plugin_valid, duration), start_time) =
     (if \<not> validate_numeric (Some duration) False True False then False
      else if \<not> validate_numeric (Some start_time) False False True then False
      else plugin_valid)"

definition sequence_validate :: "string \<Rightarrow> (bool \<times> pyfloat) list \<Rightarrow> bool \<Rightarrow> bool" where
  "sequence_validate post_behavior stages parse_error =
     (let durations = map snd stages
      in if parse_error then False
         else if stages = [] then False
         else if post_behavior \<notin> {''hold_last'', ''zero'', ''repeat''} then False
         else if \<not> list_all sequence_stage_valid (zip stages (stage_starts durations)) then False
         else if \<not> validate_numeric (Some (total_duration durations)) False True False then False
         else True)"

subsection \<open>Evaluation and validation of an instance\<close>

primrec get_rate :: "pylib \<Rightarrow> plugin \<Rightarrow> rate_fn" where
  "get_rate lib (ConstantDistribution rps parse_error) =
     (\<lambda>time_elapsed target_rps g. Inr (constant_get_rate rps time_elapsed target_rps, g))"
| "get_rate lib (LinearDistribution ramp_duration parse_error) =
     (\<lambda>time_elapsed target_rps g.
        case linear_get_rate ramp_duration time_elapsed target_rps of
          Inl e \<Rightarrow> Inl e
        | Inr rate \<Rightarrow> Inr (rate, g))"
| "get_rate lib (PoissonDistribution lambda_param variance_scale parse_error) =
     (\<lambda>time_elapsed target_rps g.
        Inr (poisson_get_rate lambda_param variance_scale time_elapsed target_rps g))"
| "get_rate lib (StepDistribution steps default_rps parse_error) =
     (\<lambda>time_elapsed target_rps g.
        Inr (step_get_rate steps default_rps parse_error time_elapsed target_rps, g))"
| "get_rate lib (SineDistribution period amplitude phase_shift base_rps parse_error) =
     (\<lambda>time_elapsed target_rps g.
        case sine_get_rate lib period amplitude phase_shift base_rps time_elapsed target_rps of
          Inl e \<Rightarrow> Inl e
        | Inr rate \<Rightarrow> Inr (rate, g))"
| "get_rate lib (MixDistribution mix_target_rps components normalized_weights parse_error) =
     mix_get_rate lib mix_target_rps (map (map_prod (get_rate lib) id) components)
       normalized_weights parse_error"
| "get_rate lib (SequenceDistribution post_behavior stages parse_error) =
     sequence_get_rate post_behavior (map (map_prod (get_rate lib) id) stages) parse_error"

primrec validate :: "pylib \<Rightarrow> plugin \<Rightarrow> bool" where
  "validate lib (ConstantDistribution rps parse_error) = constant_validate rps parse_error"
| "validate lib (LinearDistribution ramp_duration parse_error) =
     linear_validate ramp_duration parse_error"
| "validate lib (PoissonDistribution lambda_param variance_scale parse_error) =
     poisson_validate lambda_param variance_scale parse_error"
| "validate lib (StepDistribution steps default_rps parse_error) =
     step_validate steps default_rps parse_error"
| "validate lib (SineDistribution period amplitude phase_shift base_rps parse_error) =
     sine_validate period amplitude phase_shift base_rps parse_error"
| "validate lib (MixDistribution mix_target_rps components normalized_weights parse_error) =
     mix_validate lib mix_target_rps (map (map_prod (validate lib) id) components)
       normalized_weights parse_error"
| "validate lib (SequenceDistribution post_behavior stages parse_error) =
     sequence_validate post_behavior (map (map_prod (validate lib) id) stages) parse_error"




definition sorted_keeps_elements :: "pylib \<Rightarrow> bool" where
  "sorted_keeps_elements lib = (\<forall>pairs. set (sorted_unordered lib pairs) = set pairs)"

text \<open>
  What a call of \<open>get_rate\<close> may do: \<open>raises_only b\<close> allows it to return, and to
  raise \<open>ValueError\<close> when \<open>b\<close> holds; \<open>nonneg_rate\<close> says that the rate it returns,
  if it returns, is at least zero.
\<close>

fun is_value_error :: "py_exception \<Rightarrow> bool" where
  "is_value_error (ValueErrorExc m) = True"
| "is_value_error e = False"

definition raises_only :: "bool \<Rightarrow> py_exception + 'a \<Rightarrow> bool" where
  "raises_only may_raise res =
     (case res of Inr x \<Rightarrow> True | Inl e \<Rightarrow> may_raise \<and> is_value_error e)"

definition nonneg_rate :: "py_exception + (pyfloat \<times> gauss) \<Rightarrow> bool" where
  "nonneg_rate res = (case res of Inr (x, g) \<Rightarrow> fle (Fin 0) x | Inl e \<Rightarrow> True)"

subsection \<open>registry.py and loader.py\<close>

datatype plugin_class =
    ConstantC | LinearC | PoissonC | StepC | SineC | MixC | SequenceC

text \<open>
  \<open>get_plugin_class\<close> on the registry of the built-in distributions
  (\<open>register_builtin_distributions\<close>); plugins from entry points are not modelled.
\<close>

definition get_plugin_class :: "string \<Rightarrow> plugin_class option" where
  "get_plugin_class name =
     map_of [(''constant'', ConstantC), (''linear'', LinearC), (''poisson'', PoissonC),
             (''step'', StepC), (''sine'', SineC), (''mix'', MixC),
             (''sequence'', SequenceC)] name"

subsection \<open>Initialisation of composites\<close>

text \<open>
  \<open>_parse_components\<close> and \<open>_parse_stages_data\<close>: the list to iterate, or \<open>None\<close>
  when \<open>_parse_error\<close> is set and \<open>initialize\<close> returns early.
\<close>

definition parse_list_field :: "pylib \<Rightarrow> pyval \<Rightarrow> pyval list option" where
  "parse_list_field lib v =
     (if v = PNone then Some []
      else case parse_json_or_list lib v of
             (True, PList xs) \<Rightarrow> Some xs
           | _ \<Rightarrow> None)"

text \<open>The \<open>config\<close> entry of a nested distribution: absent, a dict, or rejected.\<close>

fun nested_config :: "pyval \<Rightarrow> pydict option" where
  "nested_config PNone = Some []"
| "nested_config (PDict d) = Some d"
| "nested_config v = None"

text \<open>
  A child is initialised through \<open>init\<close>, which may give up (\<open>None\<close>) when the nesting
  is deeper than the fuel of \<open>initialize\<close> below, or raise (\<open>Inl\<close>).
  \<open>_parse_single_component\<close> and \<open>_parse_stage\<close> return \<open>Inr None\<close> where the code
  sets \<open>_parse_error\<close> and skips the entry.
\<close>

type_synonym initializer = "plugin_class \<Rightarrow> pydict \<Rightarrow> (py_exception + plugin) option"

fun parse_single_component :: "pylib \<Rightarrow> initializer \<Rightarrow> pyval \<Rightarrow>
    (py_exception + (plugin \<times> pyfloat \<times> pyfloat option) option) option" where
  "parse_single_component lib init (PDict component) =
     (case to_float lib (dict_get component ''weight'') None of
        Inl e \<Rightarrow> Some (Inl e)
      | Inr None \<Rightarrow> Some (Inr None)
      | Inr (Some weight) \<Rightarrow>
          (case dict_get component ''distribution'' of
             PDict distribution_value \<Rightarrow>
               (case dict_get distribution_value ''name'' of
                  PStr name_value \<Rightarrow>
                    (case get_plugin_class name_value of
                       None \<Rightarrow> Some (Inr None)
                     | Some plugin_class \<Rightarrow>
                         (case nested_config (dict_get distribution_value ''config'') of
                            None \<Rightarrow> Some (Inr None)
                          | Some component_config \<Rightarrow>
                              (case to_float lib (dict_get component_config ''target_rps'') None of
                                 Inl e \<Rightarrow> Some (Inl e)
                               | Inr target_override \<Rightarrow>
                                   if dict_get component_config ''target_rps'' \<noteq> PNone
                                      \<and> target_override = None
                                   then Some (Inr None)
                                   else (case init plugin_class component_config of
                                           None \<Rightarrow> None
                                         | Some (Inl e) \<Rightarrow> Some (Inl e)
                                         | Some (Inr plugin_instance) \<Rightarrow>
                                             Some (Inr (Some (plugin_instance, weight,
                                                              target_override)))))))
                | _ \<Rightarrow> Some (Inr None))
           | _ \<Rightarrow> Some (Inr None)))"
| "parse_single_component lib init v = Some (Inr None)"

text \<open>
  The loop over the entries, up to the first that raises: the parsed entries and
  whether one was skipped.
\<close>

fun parse_entries :: "('a \<Rightarrow> (py_exception + 'b option) option) \<Rightarrow> 'a list \<Rightarrow>
    (py_exception + ('b list \<times> bool)) option" where
  "parse_entries parse [] = Some (Inr ([], False))"
| "parse_entries parse (x # xs) =
     (case parse x of
        None \<Rightarrow> None
      | Some (Inl e) \<Rightarrow> Some (Inl e)
      | Some (Inr entry) \<Rightarrow>
          (case parse_entries parse xs of
             None \<Rightarrow> None
           | Some (Inl e) \<Rightarrow> Some (Inl e)
           | Some (Inr (parsed, skipped)) \<Rightarrow>
               (case entry of
                  None \<Rightarrow> Some (Inr (parsed, True))
                | Some y \<Rightarrow> Some (Inr (y # parsed, skipped)))))"

definition mix_initialize :: "pylib \<Rightarrow> initializer \<Rightarrow> pydict \<Rightarrow> (py_exception + plugin) option" where
  "mix_initialize lib init config =
     (let target_value = (if config \<noteq> [] then dict_get config ''target_rps'' else PNone)
      in case to_float lib target_value None of
           Inl e \<Rightarrow> Some (Inl e)
         | Inr mix_target_rps \<Rightarrow>
             let e0 = (target_value \<noteq> PNone \<and> mix_target_rps = None)
             in case parse_list_field lib (dict_get config ''components'') of
                  None \<Rightarrow> Some (Inr (MixDistribution mix_target_rps [] [] True))
                | Some components_data \<Rightarrow>
                    (case parse_entries (parse_single_component lib init) components_data of
                       None \<Rightarrow> None
                     | Some (Inl e) \<Rightarrow> Some (Inl e)
                     | Some (Inr (components, skipped)) \<Rightarrow>
                         (case set_normalized_weights lib (map (\<lambda>c. fst (snd c)) components) of
                            Inl e \<Rightarrow> Some (Inl e)
                          | Inr normalized_weights \<Rightarrow>
                              Some (Inr (MixDistribution mix_target_rps components
                                           normalized_weights (e0 \<or> skipped))))))"

definition set_post_behavior :: "pydict \<Rightarrow> string \<times> bool" where
  "set_post_behavior config =
     (case map_of config ''post_behavior'' of
        None \<Rightarrow> (''hold_last'', False)
      | Some (PStr s) \<Rightarrow> (s, False)
      | Some v \<Rightarrow> (''hold_last'', True))"

fun parse_stage :: "pylib \<Rightarrow> initializer \<Rightarrow> pyval \<Rightarrow>
    (py_exception + (plugin \<times> pyfloat) option) option" where
  "parse_stage lib init (PDict stage) =
     (if \<not> is_number (dict_get stage ''duration_seconds'') then Some (Inr None)
      else case py_float lib (dict_get stage ''duration_seconds'') of
             Inl e \<Rightarrow> Some (Inl e)
           | Inr duration \<Rightarrow>
               (case dict_get stage ''distribution'' of
                  PDict distribution_value \<Rightarrow>
                    (case dict_get distribution_value ''name'' of
                       PStr name_value \<Rightarrow>
                         (case get_plugin_class name_value of
                            None \<Rightarrow> Some (Inr None)
                          | Some plugin_class \<Rightarrow>
                              (case nested_config (dict_get distribution_value ''config'') of
                                 None \<Rightarrow> Some (Inr None)
                               | Some stage_config \<Rightarrow>
                                   (case init plugin_class stage_config of
                                      None \<Rightarrow> None
                                    | Some (Inl e) \<Rightarrow> Some (Inl e)
                                    | Some (Inr plugin_instance) \<Rightarrow>
                                        Some (Inr (Some (plugin_instance, duration))))))
                     | _ \<Rightarrow> Some (Inr None))
                | _ \<Rightarrow> Some (Inr None)))"
| "parse_stage lib init v = Some (Inr None)"

definition sequence_initialize :: "pylib \<Rightarrow> initializer \<Rightarrow> pydict \<Rightarrow>
    (py_exception + plugin) option" where
  "sequence_initialize lib init config =
     (let (post_behavior, e0) = set_post_behavior config
      in case parse_list_field lib (dict_get config ''stages'') of
           None \<Rightarrow> Some (Inr (SequenceDistribution post_behavior [] True))
         | Some stages_data \<Rightarrow>
             (case parse_entries (parse_stage lib init) stages_data of
                None \<Rightarrow> None
              | Some (Inl e) \<Rightarrow> Some (Inl e)
              | Some (Inr (stages, skipped)) \<Rightarrow>
                  Some (Inr (SequenceDistribution post_behavior stages (e0 \<or> skipped)))))"

text \<open>
  \<open>plugin_class().initialize(config)\<close>.  A composite initialises its children, whose
  configuration may come out of \<open>json.loads\<close>; the first argument bounds the depth of
  nesting, and \<open>None\<close> means that the bound was too small.
\<close>

primrec initialize :: "nat \<Rightarrow> pylib \<Rightarrow> initializer" where
  "initialize 0 = (\<lambda>lib plugin_class config. None)"
| "initialize (Suc n) =
     (\<lambda>lib plugin_class config.
        case plugin_class of
          ConstantC \<Rightarrow> Some (constant_initialize lib config)
        | LinearC \<Rightarrow> Some (linear_initialize lib config)
        | PoissonC \<Rightarrow> Some (poisson_initialize lib config)
        | StepC \<Rightarrow> Some (step_initialize lib config)
        | SineC \<Rightarrow> Some (sine_initialize lib config)
        | MixC \<Rightarrow> mix_initialize lib (initialize n lib) config
        | SequenceC \<Rightarrow> sequence_initialize lib (initialize n lib) config)"

subsection \<open>validation.py\<close>

definition normalize_list_field :: "pylib \<Rightarrow> pydict \<Rightarrow> string \<Rightarrow> py_exception + pydict" where
  "normalize_list_field lib config field_name =
     (case map_of config field_name of
        None \<Rightarrow> Inr config
      | Some v \<Rightarrow>
          (case (case v of
                   PStr s \<Rightarrow> (case json_loads lib s of
                                None \<Rightarrow> Inl (ValueErrorExc (field_name @ '' must be a JSON array or list''))
                              | Some parsed \<Rightarrow> Inr parsed)
                 | _ \<Rightarrow> Inr v) of
             Inl e \<Rightarrow> Inl e
           | Inr (PList xs) \<Rightarrow> Inr (dict_set config field_name (PList xs))
           | Inr other \<Rightarrow> Inl (ValueErrorExc (field_name @ '' must be a list''))))"

definition normalize_distribution_config :: "pylib \<Rightarrow> string \<Rightarrow> pydict \<Rightarrow> py_exception + pydict" where
  "normalize_distribution_config lib name config =
     (if name = ''mix'' then normalize_list_field lib config ''components''
      else if name = ''sequence'' then normalize_list_field lib config ''stages''
      else Inr config)"

fun is_positive_number :: "pyval \<Rightarrow> bool" where
  "is_positive_number (PBool b) = b"
| "is_positive_number (PInt i) = (0 < i)"
| "is_positive_number (PFloat x) = flt (Fin 0) x"
| "is_positive_number v = False"

text \<open>
  The recursive validator is handed down as \<open>rec\<close>; its result is \<open>None\<close> when the fuel
  of \<open>validate_distribution_config\<close> below is used up, \<open>Inl\<close> when an exception
  escapes (the \<open>ValueError\<close> of \<open>_normalize_list_field\<close>, the \<open>TypeError\<close> of testing
  an unhashable value for membership in a set, the \<open>OverflowError\<close> of \<open>initialize\<close>),
  and the list of error strings otherwise.
\<close>

type_synonym validator = "string \<Rightarrow> pydict \<Rightarrow> string \<Rightarrow> (py_exception + string list) option"

definition distribution_errors :: "pylib \<Rightarrow> validator \<Rightarrow> pydict \<Rightarrow> nat \<Rightarrow> string \<Rightarrow>
    (py_exception + string list) option" where
  "distribution_errors lib rec container index parent_field =
     (case dict_get container ''distribution'' of
        PDict distribution \<Rightarrow>
          (case dict_get distribution ''name'' of
             PStr name \<Rightarrow>
               if name = [] then
                 Some (Inr [parent_field @ ''['' @ str_of_nat index @ ''].distribution.name is required''])
               else
                 (case nested_config (case map_of distribution ''config'' of
                                        None \<Rightarrow> PDict [] | Some v \<Rightarrow> v) of
                    None \<Rightarrow>
                      Some (Inr [parent_field @ ''['' @ str_of_nat index
                                 @ ''].distribution.config must be an object''])
                  | Some config_value \<Rightarrow>
                      (case normalize_distribution_config lib name config_value of
                         Inl e \<Rightarrow> Some (Inl e)
                       | Inr nested \<Rightarrow>
                           rec name nested
                             (parent_field @ ''['' @ str_of_nat index @ ''].distribution'')))
           | _ \<Rightarrow>
               Some (Inr [parent_field @ ''['' @ str_of_nat index @ ''].distribution.name is required'']))
      | _ \<Rightarrow>
          Some (Inr [parent_field @ ''['' @ str_of_nat index @ ''].distribution must be an object'']))"

text \<open>
  The loops of \<open>_validate_mix_config\<close> and \<open>_validate_sequence_config\<close> over
  \<open>enumerate(...)\<close>; \<open>key\<close> is the entry that must be a positive number.
\<close>

fun validate_entries :: "pylib \<Rightarrow> validator \<Rightarrow> string \<Rightarrow> string \<Rightarrow> nat \<Rightarrow> pyval list \<Rightarrow>
    (py_exception + string list) option" where
  "validate_entries lib rec parent_field key index [] = Some (Inr [])"
| "validate_entries lib rec parent_field key index (entry # rest) =
     (case (case entry of
              PDict d \<Rightarrow>
                (case distribution_errors lib rec d index parent_field of
                   None \<Rightarrow> None
                 | Some (Inl e) \<Rightarrow> Some (Inl e)
                 | Some (Inr errs) \<Rightarrow>
                     Some (Inr ((if \<not> is_positive_number (dict_get d key)
                                 then [parent_field @ ''['' @ str_of_nat index @ ''].'' @ key
                                       @ '' must be > 0'']
                                 else []) @ errs)))
            | _ \<Rightarrow> Some (Inr [parent_field @ ''['' @ str_of_nat index @ ''] must be an object''])) of
        None \<Rightarrow> None
      | Some (Inl e) \<Rightarrow> Some (Inl e)
      | Some (Inr errs) \<Rightarrow>
          (case validate_entries lib rec parent_field key (Suc index) rest of
             None \<Rightarrow> None
           | Some (Inl e) \<Rightarrow> Some (Inl e)
           | Some (Inr errs') \<Rightarrow> Some (Inr (errs @ errs'))))"

definition validate_mix_config :: "pylib \<Rightarrow> validator \<Rightarrow> pydict \<Rightarrow>
    (py_exception + string list) option" where
  "validate_mix_config lib rec config =
     (case dict_get config ''components'' of
        PList components \<Rightarrow>
          if components = [] then Some (Inr [''components must be a non-empty list''])
          else validate_entries lib rec ''components'' ''weight'' 0 components
      | _ \<Rightarrow> Some (Inr [''components must be a non-empty list'']))"

definition validate_sequence_config :: "pylib \<Rightarrow> validator \<Rightarrow> pydict \<Rightarrow>
    (py_exception + string list) option" where
  "validate_sequence_config lib rec config =
     (case dict_get config ''stages'' of
        PList stages \<Rightarrow>
          if stages = [] then Some (Inr [''stages must be a non-empty list''])
          else (case validate_entries lib rec ''stages'' ''duration_seconds'' 0 stages of
                  None \<Rightarrow> None
                | Some (Inl e) \<Rightarrow> Some (Inl e)
                | Some (Inr errs) \<Rightarrow>
                    (case dict_get config ''post_behavior'' of
                       PNone \<Rightarrow> Some (Inr errs)
                     | PList xs \<Rightarrow> Some (Inl TypeErrorExc)
                     | PDict d \<Rightarrow> Some (Inl TypeErrorExc)
                     | post_behavior \<Rightarrow>
                         Some (Inr (errs @
                           (if post_behavior \<notin> {PStr ''hold_last'', PStr ''zero'', PStr ''repeat''}
                            then [''post_behavior must be one of: hold_last, zero, repeat'']
                            else [])))))
      | _ \<Rightarrow> Some (Inr [''stages must be a non-empty list'']))"

primrec validate_distribution_config :: "nat \<Rightarrow> pylib \<Rightarrow> validator" where
  "validate_distribution_config 0 = (\<lambda>lib name config path. None)"
| "validate_distribution_config (Suc n) =
     (\<lambda>lib name config path.
        case get_plugin_class name of
          None \<Rightarrow> Some (Inr [path @ ''.name '' @ [CHR 0x27] @ name @ [CHR 0x27] @ '' not found''])
        | Some plugin_class \<Rightarrow>
            (case (if name = ''mix''
                   then validate_mix_config lib (validate_distribution_config n lib) config
                   else if name = ''sequence''
                   then validate_sequence_config lib (validate_distribution_config n lib) config
                   else Some (Inr [])) of
               None \<Rightarrow> None
             | Some (Inl e) \<Rightarrow> Some (Inl e)
             | Some (Inr errs) \<Rightarrow>
                 if errs \<noteq> [] then Some (Inr errs)
                 else (case initialize (Suc n) lib plugin_class config of
                         None \<Rightarrow> None
                       | Some (Inl e) \<Rightarrow> Some (Inl e)
                       | Some (Inr instance) \<Rightarrow>
                           Some (Inr (if \<not> validate lib instance
                                      then [path @ '' validation failed''] else [])))))"

subsection \<open>Sample inputs\<close>

text \<open>
  A library whose \<open>float\<close> and \<open>json.loads\<close> reject every string, whose sine is the
  real sine rounded to a double, whose \<open>sum\<close> adds from left to right, and whose
  \<open>sorted\<close> leaves a list with NaN as it is.
\<close>

definition no_lib :: pylib where
  "no_lib = \<lparr>float_of_str = (\<lambda>s. None), json_loads = (\<lambda>s. None),
            libm_sin = (\<lambda>a. round_value (sin a)),
            float_sum = (\<lambda>xs. foldl fadd (Fin 0) xs),
            sorted_unordered = (\<lambda>pairs. pairs)\<rparr>"

text \<open>
  The mix configuration with the single component
  \<open>{weight: -1, distribution: {name: constant, config: {}}}\<close>.
\<close>

definition mix_config_negative_weight :: pydict where
  "mix_config_negative_weight =
     [(''components'',
       PList [PDict [(''weight'', PInt (- 1)),
                     (''distribution'', PDict [(''name'', PStr ''constant''), (''config'', PDict [])])]])]"

text \<open>A sequence of draws that are all zero.\<close>

definition no_noise :: gauss where
  "no_noise = (\<lambda>n. 0)"

text \<open>The step configuration \<open>{steps: [[30, 100], [10, 50]], default_rps: 10}\<close>.\<close>

definition step_config_two :: pydict where
  "step_config_two =
     [(''steps'', PList [PList [PInt 30, PInt 100], PList [PInt 10, PInt 50]]),
      (''default_rps'', PInt 10)]"



text \<open>The double just below 10, \<open>9.999999999999998\<close>.\<close>

definition below_ten :: real where
  "below_ten = 10 - 1 / 2 ^ 49"




definition mix_unvalidated :: plugin where
  "mix_unvalidated =
     MixDistribution None [(ConstantDistribution None False, Fin (- 1), None)] [] False"



section \<open>Run state (api/test\_executor.py)\<close>

text \<open>
  In this part the floats of the code (rates, token counts, timestamps) are modelled by
  reals: rounding, the infinities and NaN are outside this part of the model.
\<close>

record RunMetrics =
  request_count :: int
  success_count :: int
  failure_count :: int
  rps :: real
  avg_response_time :: real
  active_users_estimate :: int

record PluginConfig =
  plugin_name :: string
  plugin_config :: pydict

record RunConfig =
  test_type :: string
  duration_seconds :: "int option"
  spawn_rate :: real
  user_count :: int
  num_requests :: "int option"
  target_rps :: "real option"
  distribution :: "PluginConfig option"

text \<open>
  \<open>process\<close> is the handle of the Locust subprocess (its pid here); timestamps are
  seconds on the wall clock.
\<close>

record RunState =
  test_id :: string
  status :: string
  start_time :: "real option"
  end_time :: "real option"
  config :: "RunConfig option"
  metrics :: RunMetrics
  process :: "nat option"
  output_lines :: "string list"
  in_flight_requests :: int

definition TERMINAL_STATUSES :: "string set" where
  "TERMINAL_STATUSES = {''completed'', ''failed'', ''stopped''}"

definition default_metrics :: RunMetrics where
  "default_metrics = \<lparr>request_count = 0, success_count = 0, failure_count = 0, rps = 0,
     avg_response_time = 0, active_users_estimate = 0\<rparr>"

definition default_config :: RunConfig where
  "default_config = \<lparr>test_type = ''linear'', duration_seconds = None, spawn_rate = 10,
     user_count = 1, num_requests = None, target_rps = None, distribution = None\<rparr>"

definition new_state :: "string \<Rightarrow> RunConfig option \<Rightarrow> RunState" where
  "new_state tid cfg = \<lparr>test_id = tid, status = ''pending'', start_time = None,
     end_time = None, config = cfg, metrics = default_metrics, process = None,
     output_lines = [], in_flight_requests = 0\<rparr>"

subsection \<open>Mode selection\<close>

definition should_use_distribution_mode :: "RunConfig \<Rightarrow> bool" where
  "should_use_distribution_mode c = (distribution c \<noteq> None \<or> target_rps c \<noteq> None)"

text \<open>Python truthiness of \<open>config.num_requests\<close>: \<open>None\<close> and \<open>0\<close> are false.\<close>

definition truthy_int_opt :: "int option \<Rightarrow> bool" where
  "truthy_int_opt v = (case v of None \<Rightarrow> False | Some n \<Rightarrow> n \<noteq> 0)"

datatype test_mode = DistributionTest | DurationTest | LocustTest

definition run_test_mode :: "RunConfig \<Rightarrow> test_mode" where
  "run_test_mode c =
     (if truthy_int_opt (num_requests c) then
        (if should_use_distribution_mode c then DistributionTest else DurationTest)
      else LocustTest)"

subsection \<open>Token bucket\<close>

definition update_tokens :: "real \<Rightarrow> real \<Rightarrow> real \<Rightarrow> real" where
  "update_tokens token_count current_rps tick_delta =
     (if current_rps \<le> 0 \<or> tick_delta \<le> 0 then token_count
      else let max_tokens = max 1 (current_rps * 2)
           in min max_tokens (token_count + current_rps * tick_delta))"

subsection \<open>Broadcast payload\<close>

definition configured_users :: "RunState \<Rightarrow> int" where
  "configured_users s = (case config s of None \<Rightarrow> 0 | Some c \<Rightarrow> max 0 (user_count c))"

text \<open>
  Python's \<open>round(x, 2)\<close> on a finite double: the exact value of \<open>x\<close> is rounded to
  two decimals, ties to the even neighbour, and the result is the double nearest to
  that decimal.
\<close>

definition py_round2 :: "real \<Rightarrow> real" where
  "py_round2 x = round_value (of_int (round_half_even (x * 100)) / 100)"

record MetricsData =
  requests_sent :: int
  responses_received :: int
  errors :: int
  data_rps :: real
  avg_latency_ms :: real
  data_active_users_estimate :: int
  data_configured_users :: int

record MetricsPayload =
  payload_type :: string
  payload_test_id :: string
  payload_timestamp :: string
  payload_status :: string
  payload_data :: MetricsData

definition format_metrics :: "string \<Rightarrow> string \<Rightarrow> RunState \<Rightarrow> MetricsPayload" where
  "format_metrics now_utc tid s =
     (let cu = configured_users s;
          est0 = max 0 (active_users_estimate (metrics s));
          est1 = (if process s \<noteq> None \<and> status s = ''running'' \<and> est0 = 0 then cu else est0);
          est2 = (if status s \<in> TERMINAL_STATUSES then 0 else est1)
      in \<lparr>payload_type = ''metrics'', payload_test_id = tid, payload_timestamp = now_utc,
          payload_status = status s,
          payload_data = \<lparr>requests_sent = request_count (metrics s),
            responses_received = success_count (metrics s),
            errors = failure_count (metrics s),
            data_rps = py_round2 (rps (metrics s)),
            avg_latency_ms = py_round2 (avg_response_time (metrics s)),
            data_active_users_estimate = est2,
            data_configured_users = cu\<rparr>\<rparr>)"

subsection \<open>Cancellation\<close>

text \<open>
  What \<open>_terminate_process\<close> can meet: a subprocess that has already exited, on
  which \<open>process.terminate()\<close> raises \<open>ProcessLookupError\<close>; one that exits within
  the five seconds after \<open>SIGTERM\<close>; one that does not, and exits when it is killed;
  and one that exits after the five seconds but before \<open>process.kill()\<close>, which then
  raises \<open>ProcessLookupError\<close>.  The result is the exception that
  \<open>_terminate_process\<close> raises, if any.  A cancellation of the awaiting task is not
  modelled.
\<close>

datatype subprocess = Exited | ExitsOnTerminate | ExitsOnKill | ExitsBeforeKill

fun terminate_process :: "subprocess \<Rightarrow> py_exception option" where
  "terminate_process Exited = Some ProcessLookupErrorExc"
| "terminate_process ExitsOnTerminate = None"
| "terminate_process ExitsOnKill = None"
| "terminate_process ExitsBeforeKill = Some ProcessLookupErrorExc"

text \<open>
  The process-wide store \<open>active_tests\<close> and the messages handed to
  \<open>manager.broadcast\<close>, oldest first.  \<open>procs\<close> says how the subprocess behind a
  handle behaves, and \<open>terminated\<close> lists the subprocesses that \<open>_terminate_process\<close>
  was awaited on.
\<close>

record world =
  active_tests :: "string \<rightharpoonup> RunState"
  broadcasts :: "(string \<times> MetricsPayload) list"
  procs :: "nat \<Rightarrow> subprocess"
  terminated :: "nat list"

definition stop_requested :: "RunState \<Rightarrow> bool" where
  "stop_requested s = (status s \<in> {''stopping'', ''stopped''})"

text \<open>
  \<open>stop_test\<close> in two parts: up to the write of \<open>stopping\<close> (\<open>None\<close> when the guard
  returns early), and from the termination of the subprocess on.  Between the two the
  coroutine awaits \<open>_terminate_process\<close> when a subprocess is present; when that
  raises, the exception leaves \<open>stop_test\<close> and the second part is not run.
\<close>

definition stop_test_begin :: "RunState \<Rightarrow> RunState option" where
  "stop_test_begin s =
     (if status s \<in> TERMINAL_STATUSES \<or> status s = ''stopping'' then None
      else Some (s\<lparr>status := ''stopping''\<rparr>))"

definition stop_test_finish :: "real \<Rightarrow> RunState \<Rightarrow> RunState" where
  "stop_test_finish now s1 =
     (let s2 = s1\<lparr>process := None\<rparr>;
          s3 = s2\<lparr>status := ''stopped''\<rparr>;
          s4 = s3\<lparr>metrics := (metrics s3)\<lparr>active_users_estimate := 0\<rparr>\<rparr>;
          s5 = s4\<lparr>in_flight_requests := 0\<rparr>
      in s5\<lparr>end_time := Some now\<rparr>)"

text \<open>\<open>stop_test\<close>: the value it returns or the exception it raises, and the store after it.\<close>

definition stop_test :: "real \<Rightarrow> string \<Rightarrow> string \<Rightarrow> world \<Rightarrow> (py_exception + bool) \<times> world" where
  "stop_test now now_utc tid w =
     (case active_tests w tid of
        None \<Rightarrow> (Inr False, w)
      | Some s \<Rightarrow>
          (case stop_test_begin s of
             None \<Rightarrow> (Inr True, w)
           | Some s1 \<Rightarrow>
               let killed = (case process s1 of None \<Rightarrow> [] | Some p \<Rightarrow> [p])
               in case (case process s1 of
                          None \<Rightarrow> None
                        | Some p \<Rightarrow> terminate_process (procs w p)) of
                    Some e \<Rightarrow>
                      (Inl e, w\<lparr>active_tests := (active_tests w)(tid \<mapsto> s1),
                                 terminated := terminated w @ killed\<rparr>)
                  | None \<Rightarrow>
                      let s6 = stop_test_finish now s1
                      in (Inr True,
                          w\<lparr>active_tests := (active_tests w)(tid \<mapsto> s6),
                            broadcasts := broadcasts w @ [(tid, format_metrics now_utc tid s6)],
                            terminated := terminated w @ killed\<rparr>)))"

subsection \<open>Run lifecycle\<close>

definition finalize_test_run :: "real \<Rightarrow> RunState \<Rightarrow> RunState" where
  "finalize_test_run now s =
     (let s1 = s\<lparr>end_time := Some now\<rparr>;
          s2 = (case start_time s1 of
                  None \<Rightarrow> s1
                | Some st \<Rightarrow>
                    let duration = now - st
                    in if 0 < duration
                       then s1\<lparr>metrics := (metrics s1)\<lparr>rps := of_int (request_count (metrics s1)) / duration\<rparr>\<rparr>
                       else s1)
      in if status s2 \<in> TERMINAL_STATUSES
         then s2\<lparr>in_flight_requests := 0,
                 metrics := (metrics s2)\<lparr>active_users_estimate := 0\<rparr>\<rparr>
         else s2)"

text \<open>
  \<open>execute_test\<close> before and after the awaited \<open>_run_test_mode\<close>; \<open>raised\<close> says
  whether the dispatcher left through an exception.  The dispatcher loops themselves
  (\<open>execute_duration_test\<close>, \<open>execute_distribution_test\<close>, \<open>execute_locust_test\<close>)
  only read \<open>status\<close>, and a cancellation of the task (\<open>CancelledError\<close>) passes
  both handlers without a status write.
\<close>

definition execute_test_begin :: "real \<Rightarrow> RunConfig \<Rightarrow> RunState \<Rightarrow> RunState" where
  "execute_test_begin now cfg s = s\<lparr>status := ''running'', start_time := Some now, config := Some cfg\<rparr>"

definition execute_test_end :: "bool \<Rightarrow> real \<Rightarrow> RunState \<Rightarrow> RunState" where
  "execute_test_end raised now s =
     finalize_test_run now
       (s\<lparr>status := (if stop_requested s then ''stopped''
                      else if raised then ''failed'' else ''completed'')\<rparr>)"

text \<open>
  One run as a transition system.  \<open>exec_pc\<close> is the position of the \<open>execute_test\<close>
  task, \<open>stoppers\<close> the number of \<open>stop_test\<close> calls suspended between their two
  writes.  Every step returns the status write it performs as a pair (old, new).
\<close>

datatype exec_pc = NotStarted | InRun | Done

record run =
  rstate :: RunState
  pc :: exec_pc
  stoppers :: nat

datatype event =
    ExecBegin real RunConfig
  | ExecEnd bool real
  | StopBegin
  | StopFinish real

fun step :: "event \<Rightarrow> run \<Rightarrow> ((string \<times> string) list \<times> run) option" where
  "step (ExecBegin now cfg) r =
     (if pc r = NotStarted
      then let s' = execute_test_begin now cfg (rstate r)
           in Some ([(status (rstate r), status s')], r\<lparr>rstate := s', pc := InRun\<rparr>)
      else None)"
| "step (ExecEnd raised now) r =
     (if pc r = InRun
      then let s' = execute_test_end raised now (rstate r)
           in Some ([(status (rstate r), status s')], r\<lparr>rstate := s', pc := Done\<rparr>)
      else None)"
| "step StopBegin r =
     (case stop_test_begin (rstate r) of
        None \<Rightarrow> Some ([], r)
      | Some s' \<Rightarrow> Some ([(status (rstate r), status s')],
                        r\<lparr>rstate := s', stoppers := Suc (stoppers r)\<rparr>))"
| "step (StopFinish now) r =
     (if 0 < stoppers r
      then let s' = stop_test_finish now (rstate r)
           in Some ([(status (rstate r), status s')], r\<lparr>rstate := s', stoppers := stoppers r - 1\<rparr>)
      else None)"

fun run_events :: "event list \<Rightarrow> run \<Rightarrow> ((string \<times> string) list \<times> run) option" where
  "run_events [] r = Some ([], r)"
| "run_events (e # es) r =
     (case step e r of
        None \<Rightarrow> None
      | Some (ws, r') \<Rightarrow>
          (case run_events es r' of
             None \<Rightarrow> None
           | Some (ws', r'') \<Rightarrow> Some (ws @ ws', r'')))"

definition created :: "string \<Rightarrow> RunConfig \<Rightarrow> run" where
  "created tid cfg = \<lparr>rstate = new_state tid (Some cfg), pc = NotStarted, stoppers = 0\<rparr>"

definition status_edges :: "(string \<times> string) set" where
  "status_edges = {(''pending'', ''running''), (''running'', ''completed''),
     (''running'', ''failed''), (''running'', ''stopping''), (''stopping'', ''stopped'')}"

text \<open>
  The situations a run can be in once \<open>execute_test\<close> has begun on a pending state and
  \<open>stop_test\<close> is called only after that.
\<close>

definition lifecycle_inv :: "run \<Rightarrow> bool" where
  "lifecycle_inv r =
     (case pc r of
        NotStarted \<Rightarrow> False
      | InRun \<Rightarrow>
          (status (rstate r) = ''running'' \<and> stoppers r = 0)
          \<or> (status (rstate r) = ''stopping'' \<and> stoppers r = 1)
          \<or> (status (rstate r) = ''stopped'' \<and> stoppers r = 0)
      | Done \<Rightarrow>
          (status (rstate r) = ''stopped'' \<and> stoppers r \<le> 1)
          \<or> (status (rstate r) = ''completed'' \<and> stoppers r = 0)
          \<or> (status (rstate r) = ''failed'' \<and> stoppers r = 0))"

section \<open>HTTP client retry loop (async\_api\_client.py)\<close>

text \<open>
  What one attempt meets: a response with its status code, one of the httpx exceptions
  the client names, the \<open>ValueError\<close> of an unsupported method, or any other exception.
\<close>

datatype attempt_outcome =
    Response int
  | TimeoutException
  | NetworkError
  | HTTPStatusError int
  | ValueError
  | OtherException

text \<open>An \<open>ApiError\<close> with its optional status code.\<close>

datatype api_error = ApiError "int option"

datatype call_result =
    Returned int
  | RaisedApiError "int option"
  | RaisedValueError

text \<open>\<open>httpx.Response.is_error\<close>: the status code is a client or server error.\<close>

definition is_error :: "int \<Rightarrow> bool" where
  "is_error code = (400 \<le> code \<and> code \<le> 599)"

definition sleep_for_retry :: "nat \<Rightarrow> nat" where
  "sleep_for_retry attempt = min (2 ^ attempt) 10"

text \<open>
  \<open>_handle_error_response\<close>: \<open>Inr None\<close> for a response that is no error, \<open>Inr (Some e)\<close>
  for an error to retry, \<open>Inl e\<close> when it raises.
\<close>

definition handle_error_response :: "int \<Rightarrow> int \<Rightarrow> nat \<Rightarrow> api_error + api_error option" where
  "handle_error_response max_retries code attempt =
     (if \<not> is_error code then Inr None
      else if int attempt < max_retries then Inr (Some (ApiError (Some code)))
      else Inl (ApiError (Some code)))"

text \<open>
  \<open>_attempt_request\<close>: the pair (response, error), or \<open>None\<close> when the \<open>ValueError\<close>
  is re-raised.  The \<open>ApiError\<close> raised by \<open>_handle_error_response\<close> is caught by the
  last handler and comes back as an error without status code.
\<close>

fun attempt_request :: "int \<Rightarrow> nat \<Rightarrow> attempt_outcome \<Rightarrow> (int option \<times> api_error option) option" where
  "attempt_request max_retries attempt (Response code) =
     (case handle_error_response max_retries code attempt of
        Inr None \<Rightarrow> Some (Some code, None)
      | Inr (Some e) \<Rightarrow> Some (None, Some e)
      | Inl e \<Rightarrow> Some (None, Some (ApiError None)))"
| "attempt_request max_retries attempt TimeoutException = Some (None, Some (ApiError None))"
| "attempt_request max_retries attempt NetworkError = Some (None, Some (ApiError None))"
| "attempt_request max_retries attempt (HTTPStatusError code) = Some (None, Some (ApiError (Some code)))"
| "attempt_request max_retries attempt ValueError = None"
| "attempt_request max_retries attempt OtherException = Some (None, Some (ApiError None))"

record call_trace =
  result :: call_result
  attempts :: nat
  backoffs :: "nat list"

text \<open>
  The loop of \<open>make_api_call\<close> over \<open>range(max_retries + 1)\<close>; \<open>env k\<close> is what attempt
  \<open>k\<close> meets, \<open>backoffs\<close> the seconds slept between attempts.
\<close>

fun attempt_loop :: "int \<Rightarrow> (nat \<Rightarrow> attempt_outcome) \<Rightarrow> nat list \<Rightarrow> api_error option \<Rightarrow> call_trace" where
  "attempt_loop max_retries env [] last_error =
     \<lparr>result = RaisedApiError (case last_error of None \<Rightarrow> None | Some (ApiError c) \<Rightarrow> c),
      attempts = 0, backoffs = []\<rparr>"
| "attempt_loop max_retries env (attempt # rest) last_error =
     (case attempt_request max_retries attempt (env attempt) of
        None \<Rightarrow> \<lparr>result = RaisedValueError, attempts = 1, backoffs = []\<rparr>
      | Some (Some code, err) \<Rightarrow> \<lparr>result = Returned code, attempts = 1, backoffs = []\<rparr>
      | Some (None, err) \<Rightarrow>
          let slept = (if int attempt < max_retries then [sleep_for_retry attempt] else []);
              t = attempt_loop max_retries env rest err
          in t\<lparr>attempts := Suc (attempts t), backoffs := slept @ backoffs t\<rparr>)"

definition make_api_call :: "int \<Rightarrow> (nat \<Rightarrow> attempt_outcome) \<Rightarrow> call_trace" where
  "make_api_call max_retries env =
     attempt_loop max_retries env [0..<nat (max_retries + 1)] None"

text \<open>
  The accounting of \<open>_execute_prime_request\<close> for the outcome of the call: only a
  response with status 200 is a success.
\<close>

definition record_outcome :: "call_result \<Rightarrow> RunMetrics \<Rightarrow> RunMetrics" where
  "record_outcome res m =
     (case res of
        Returned code \<Rightarrow>
          if code = 200 then m\<lparr>success_count := success_count m + 1\<rparr>
          else m\<lparr>failure_count := failure_count m + 1\<rparr>
      | RaisedApiError c \<Rightarrow> m\<lparr>failure_count := failure_count m + 1\<rparr>
      | RaisedValueError \<Rightarrow> m\<lparr>failure_count := failure_count m + 1\<rparr>)"

text \<open>A backend that answers every attempt with 404.\<close>

definition always_404 :: "nat \<Rightarrow> attempt_outcome" where
  "always_404 = (\<lambda>k. Response 404)"

text \<open>What the loop treats as a failed attempt to be tried again.\<close>

fun retried :: "attempt_outcome \<Rightarrow> bool" where
  "retried (Response code) = is_error code"
| "retried TimeoutException = True"
| "retried NetworkError = True"
| "retried (HTTPStatusError code) = True"
| "retried ValueError = False"
| "retried OtherException = True"

text \<open>
  A store with a finished run \<open>a\<close>, a running one \<open>b\<close> without subprocess, a running
  one \<open>d\<close> whose subprocess has exited, and a running one \<open>e\<close> whose subprocess has
  to be killed.
\<close>

definition w0 :: world where
  "w0 = \<lparr>active_tests = [''a'' \<mapsto> (new_state ''a'' None)\<lparr>status := ''completed''\<rparr>,
                          ''b'' \<mapsto> (new_state ''b'' None)\<lparr>status := ''running''\<rparr>,
                          ''d'' \<mapsto> (new_state ''d'' None)\<lparr>status := ''running'', process := Some 7\<rparr>,
                          ''e'' \<mapsto> (new_state ''e'' None)\<lparr>status := ''running'', process := Some 8\<rparr>],
        broadcasts = [],
        procs = (\<lambda>p. if p = 7 then Exited else ExitsOnKill),
        terminated = []\<rparr>"

section \<open>Properties of the dispatcher\<close>

subsection \<open>Mode selection\<close>

text \<open>
  Claim C1, as the code has it.  \<open>_run_test_mode\<close> first tests \<open>config.num_requests\<close>:
  the token-bucket distribution driver runs exactly when \<open>num_requests\<close> is set (and not
  zero) and a distribution or \<open>target_rps\<close> is set; the paced driver runs exactly when
  \<open>num_requests\<close> is set with neither; every configuration without \<open>num_requests\<close> goes
  to the Locust subprocess, whether or not it carries a distribution or \<open>target_rps\<close>.
\<close>

theorem mode_selection:
  "(run_test_mode c = DistributionTest \<longleftrightarrow>
      truthy_int_opt (num_requests c) \<and> (distribution c \<noteq> None \<or> target_rps c \<noteq> None))
   \<and> (run_test_mode c = DurationTest \<longleftrightarrow>
      truthy_int_opt (num_requests c) \<and> distribution c = None \<and> target_rps c = None)
   \<and> (run_test_mode c = LocustTest \<longleftrightarrow> num_requests c = None \<or> num_requests c = Some 0)"
  by (cases "num_requests c")
     (auto simp add: run_test_mode_def truthy_int_opt_def should_use_distribution_mode_def)

theorem mode_selection_witness:
  "run_test_mode (default_config\<lparr>num_requests := Some 5, target_rps := Some 10,
      distribution := Some \<lparr>plugin_name = ''constant'', plugin_config = []\<rparr>\<rparr>) = DistributionTest
   \<and> run_test_mode (default_config\<lparr>num_requests := Some 5\<rparr>) = DurationTest
   \<and> run_test_mode default_config = LocustTest"
  using mode_selection [of "default_config\<lparr>num_requests := Some 5, target_rps := Some 10,
      distribution := Some \<lparr>plugin_name = ''constant'', plugin_config = []\<rparr>\<rparr>"]
    mode_selection [of "default_config\<lparr>num_requests := Some 5\<rparr>"]
    mode_selection [of default_config]
  by (simp add: default_config_def truthy_int_opt_def)

text \<open>
  A configuration with a distribution, \<open>target_rps\<close> and \<open>duration_seconds\<close> but no
  \<open>num_requests\<close> is handed to the Locust subprocess, not to the distribution driver.
\<close>

theorem mode_selection_counterexample:
  "should_use_distribution_mode
     (default_config\<lparr>duration_seconds := Some 60, target_rps := Some 10,
        distribution := Some \<lparr>plugin_name = ''constant'', plugin_config = []\<rparr>\<rparr>)
   \<and> run_test_mode
     (default_config\<lparr>duration_seconds := Some 60, target_rps := Some 10,
        distribution := Some \<lparr>plugin_name = ''constant'', plugin_config = []\<rparr>\<rparr>) = LocustTest"
  by (simp add: default_config_def run_test_mode_def truthy_int_opt_def
      should_use_distribution_mode_def)

subsection \<open>Token bucket\<close>

text \<open>
  Claim C6.  For a token count \<open>tk \<ge> 0\<close>: when the rate and the tick delta are both
  positive the new count is \<open>min (max 1 (2 * current_rps)) (tk + current_rps * delta)\<close>;
  when either is not positive the count is unchanged.
\<close>

theorem update_tokens_bucket:
  assumes "0 \<le> tk"
  shows "(0 < current_rps \<and> 0 < delta \<longrightarrow>
            update_tokens tk current_rps delta = min (max 1 (2 * current_rps)) (tk + current_rps * delta))
       \<and> (current_rps \<le> 0 \<or> delta \<le> 0 \<longrightarrow> update_tokens tk current_rps delta = tk)"
  by (auto simp add: update_tokens_def Let_def mult.commute)

theorem update_tokens_bucket_witness:
  "update_tokens (1/2) 10 (1/100) = 3/5 \<and> update_tokens (1/2) 0 (1/100) = 1/2
   \<and> update_tokens 19 10 1 = 20"
  using update_tokens_bucket [of "1/2" 10 "1/100"] update_tokens_bucket [of "1/2" 0 "1/100"]
    update_tokens_bucket [of 19 10 1]
  by simp

subsection \<open>Broadcast payload\<close>

text \<open>
  Claim C10.  The payload reports \<open>active_users_estimate = 0\<close> in every terminal status,
  whatever the stored estimate; for a state with a subprocess handle, status \<open>running\<close>
  and stored estimate 0 it reports the configured user count.
\<close>

theorem format_metrics_active_users:
  "(status s \<in> TERMINAL_STATUSES \<longrightarrow>
      data_active_users_estimate (payload_data (format_metrics now_utc tid s)) = 0)
   \<and> (process s \<noteq> None \<and> status s = ''running'' \<and> active_users_estimate (metrics s) = 0 \<longrightarrow>
      data_active_users_estimate (payload_data (format_metrics now_utc tid s)) = configured_users s)"
  by (simp add: format_metrics_def Let_def TERMINAL_STATUSES_def)

theorem format_metrics_active_users_witness:
  "data_active_users_estimate (payload_data (format_metrics ''z'' ''t''
      ((new_state ''t'' (Some (default_config\<lparr>user_count := 4\<rparr>)))
         \<lparr>status := ''completed'', metrics := default_metrics\<lparr>active_users_estimate := 3\<rparr>\<rparr>))) = 0
   \<and> data_active_users_estimate (payload_data (format_metrics ''z'' ''t''
      ((new_state ''t'' (Some (default_config\<lparr>user_count := 4\<rparr>)))
         \<lparr>status := ''running'', process := Some 7\<rparr>))) = 4"
  using format_metrics_active_users [of
      "(new_state ''t'' (Some (default_config\<lparr>user_count := 4\<rparr>)))
         \<lparr>status := ''completed'', metrics := default_metrics\<lparr>active_users_estimate := 3\<rparr>\<rparr>" "''z''" "''t''"]
    format_metrics_active_users [of
      "(new_state ''t'' (Some (default_config\<lparr>user_count := 4\<rparr>)))
         \<lparr>status := ''running'', process := Some 7\<rparr>" "''z''" "''t''"]
  by (simp add: new_state_def default_config_def default_metrics_def TERMINAL_STATUSES_def
      configured_users_def)

subsection \<open>Cancellation\<close>

lemma stop_test_begin_finish:
  "stop_test_begin (stop_test_finish now s) = None"
  by (simp add: stop_test_begin_def stop_test_finish_def Let_def TERMINAL_STATUSES_def)

lemma stop_test_begin_begin:
  "stop_test_begin s = Some s1 \<Longrightarrow> stop_test_begin s1 = None"
  by (auto simp add: stop_test_begin_def split: if_splits)

lemma stop_test_begin_process:
  "stop_test_begin s = Some s1 \<Longrightarrow> process s1 = process s \<and> status s1 = ''stopping''"
  by (auto simp add: stop_test_begin_def split: if_splits)

lemma terminate_process_error:
  "terminate_process sp = Some e \<Longrightarrow> e = ProcessLookupErrorExc"
  by (cases sp) simp_all

lemma stop_test_absent:
  "active_tests w tid = None \<Longrightarrow> stop_test now now_utc tid w = (Inr False, w)"
  by (simp add: stop_test_def)

lemma stop_test_noop:
  "active_tests w tid = Some s \<Longrightarrow> stop_test_begin s = None \<Longrightarrow>
   stop_test now now_utc tid w = (Inr True, w)"
  by (simp add: stop_test_def)

lemma stop_test_present:
  "active_tests w tid = Some s \<Longrightarrow> fst (stop_test now now_utc tid w) \<noteq> Inr False"
  by (simp add: stop_test_def Let_def split: option.splits)

lemma stop_test_raises:
  assumes "active_tests w tid = Some s" and "stop_test_begin s = Some s1"
    and "process s = Some p" and "terminate_process (procs w p) \<noteq> None"
  shows "fst (stop_test now now_utc tid w) = Inl ProcessLookupErrorExc"
    and "active_tests (snd (stop_test now now_utc tid w)) tid = Some s1"
proof -
  from assms(4) obtain e where e: "terminate_process (procs w p) = Some e" by auto
  from terminate_process_error [OF this] e
  have "terminate_process (procs w p) = Some ProcessLookupErrorExc" by simp
  with assms(1-3) stop_test_begin_process [OF assms(2)]
  show "fst (stop_test now now_utc tid w) = Inl ProcessLookupErrorExc"
    and "active_tests (snd (stop_test now now_utc tid w)) tid = Some s1"
    by (simp_all add: stop_test_def Let_def)
qed

lemma stop_test_stops:
  assumes "active_tests w tid = Some s" and "stop_test_begin s = Some s1"
    and "\<not> (\<exists>p. process s = Some p \<and> terminate_process (procs w p) \<noteq> None)"
  shows "fst (stop_test now now_utc tid w) = Inr True"
    and "active_tests (snd (stop_test now now_utc tid w)) tid = Some (stop_test_finish now s1)"
proof -
  from assms(3) stop_test_begin_process [OF assms(2)]
  have "(case process s1 of None \<Rightarrow> None | Some p \<Rightarrow> terminate_process (procs w p)) = None"
    by (cases "process s") auto
  with assms(1,2) show "fst (stop_test now now_utc tid w) = Inr True"
    and "active_tests (snd (stop_test now now_utc tid w)) tid = Some (stop_test_finish now s1)"
    by (simp_all add: stop_test_def Let_def)
qed

lemma stop_test_cases:
  assumes "active_tests w tid = Some s" and "stop_test_begin s = Some s1"
  shows "(fst (stop_test now now_utc tid w) = Inl ProcessLookupErrorExc
          \<and> active_tests (snd (stop_test now now_utc tid w)) tid = Some s1
          \<and> (\<exists>p. process s = Some p \<and> terminate_process (procs w p) \<noteq> None))
       \<or> (fst (stop_test now now_utc tid w) = Inr True
          \<and> active_tests (snd (stop_test now now_utc tid w)) tid = Some (stop_test_finish now s1)
          \<and> \<not> (\<exists>p. process s = Some p \<and> terminate_process (procs w p) \<noteq> None))"
proof (cases "\<exists>p. process s = Some p \<and> terminate_process (procs w p) \<noteq> None")
  case True
  then obtain p where "process s = Some p" "terminate_process (procs w p) \<noteq> None" by auto
  from stop_test_raises [OF assms this] True show ?thesis by simp
next
  case False
  from stop_test_stops [OF assms False] False show ?thesis by simp
qed

lemma stop_test_twice:
  assumes "active_tests w tid = Some s"
  shows "stop_test now' now_utc' tid (snd (stop_test now now_utc tid w))
       = (Inr True, snd (stop_test now now_utc tid w))"
proof (cases "stop_test_begin s")
  case None
  with assms show ?thesis by (simp add: stop_test_noop)
next
  case (Some s1)
  from stop_test_cases [OF assms Some, of now now_utc]
  consider "active_tests (snd (stop_test now now_utc tid w)) tid = Some s1"
    | "active_tests (snd (stop_test now now_utc tid w)) tid = Some (stop_test_finish now s1)"
    by blast
  then show ?thesis
  proof cases
    case 1
    then show ?thesis
      by (rule stop_test_noop) (rule stop_test_begin_begin [OF Some])
  next
    case 2
    then show ?thesis
      by (rule stop_test_noop) (rule stop_test_begin_finish)
  qed
qed

text \<open>
  Claim C9, as the code has it.  \<open>stop_test\<close> returns \<open>False\<close> exactly when the test id
  is not in the store; on a state that is already \<open>stopping\<close> or terminal it returns
  \<open>True\<close> and leaves the whole store and the broadcast log as they were.  On any
  other state it raises exactly when the state has a subprocess on which
  \<open>_terminate_process\<close> raises (one that has already exited): the exception is
  \<open>ProcessLookupError\<close>, and the status is left at \<open>stopping\<close>; otherwise it returns
  \<open>True\<close> with the status \<open>stopped\<close>.  A second call after any first call returns, \<open>True\<close> for a test id in
  the store and \<open>False\<close> for another, and changes nothing.
\<close>

theorem stop_test_idempotent:
  "(fst (stop_test now now_utc tid w) = Inr False \<longleftrightarrow> active_tests w tid = None)
   \<and> (\<forall>s. active_tests w tid = Some s \<and> (status s = ''stopping'' \<or> status s \<in> TERMINAL_STATUSES)
          \<longrightarrow> stop_test now now_utc tid w = (Inr True, w))
   \<and> (\<forall>s. active_tests w tid = Some s \<and> status s \<noteq> ''stopping'' \<and> status s \<notin> TERMINAL_STATUSES
          \<longrightarrow> (if \<exists>p. process s = Some p \<and> terminate_process (procs w p) \<noteq> None
               then fst (stop_test now now_utc tid w) = Inl ProcessLookupErrorExc
                    \<and> map_option status (active_tests (snd (stop_test now now_utc tid w)) tid)
                        = Some ''stopping''
               else fst (stop_test now now_utc tid w) = Inr True
                    \<and> map_option status (active_tests (snd (stop_test now now_utc tid w)) tid)
                        = Some ''stopped''))
   \<and> stop_test now' now_utc' tid (snd (stop_test now now_utc tid w))
        = (if active_tests w tid = None then Inr False else Inr True,
           snd (stop_test now now_utc tid w))"
proof (intro conjI allI impI)
  show "fst (stop_test now now_utc tid w) = Inr False \<longleftrightarrow> active_tests w tid = None"
    using stop_test_present [of w tid _ now now_utc]
    by (cases "active_tests w tid") (simp_all add: stop_test_absent)
next
  fix s
  assume "active_tests w tid = Some s \<and> (status s = ''stopping'' \<or> status s \<in> TERMINAL_STATUSES)"
  then show "stop_test now now_utc tid w = (Inr True, w)"
    by (auto simp add: stop_test_noop stop_test_begin_def)
next
  fix s
  assume a: "active_tests w tid = Some s \<and> status s \<noteq> ''stopping'' \<and> status s \<notin> TERMINAL_STATUSES"
  then have b: "stop_test_begin s = Some (s\<lparr>status := ''stopping''\<rparr>)"
    by (simp add: stop_test_begin_def)
  from a have s: "active_tests w tid = Some s" by simp
  have f: "status (stop_test_finish now (s\<lparr>status := ''stopping''\<rparr>)) = ''stopped''"
    by (simp add: stop_test_finish_def Let_def)
  from stop_test_cases [OF s b, of now now_utc] f
  show "if \<exists>p. process s = Some p \<and> terminate_process (procs w p) \<noteq> None
        then fst (stop_test now now_utc tid w) = Inl ProcessLookupErrorExc
             \<and> map_option status (active_tests (snd (stop_test now now_utc tid w)) tid)
                 = Some ''stopping''
        else fst (stop_test now now_utc tid w) = Inr True
             \<and> map_option status (active_tests (snd (stop_test now now_utc tid w)) tid)
                 = Some ''stopped''"
    by auto
next
  show "stop_test now' now_utc' tid (snd (stop_test now now_utc tid w))
        = (if active_tests w tid = None then Inr False else Inr True,
           snd (stop_test now now_utc tid w))"
  proof (cases "active_tests w tid")
    case None
    then show ?thesis by (simp add: stop_test_absent)
  next
    case (Some s)
    from stop_test_twice [OF Some, of now' now_utc' now now_utc] Some
    show ?thesis by simp
  qed
qed

theorem stop_test_idempotent_witness:
  "fst (stop_test 1 ''z'' ''c'' w0) = Inr False
   \<and> stop_test 1 ''z'' ''a'' w0 = (Inr True, w0)
   \<and> fst (stop_test 1 ''z'' ''e'' w0) = Inr True
   \<and> stop_test 2 ''y'' ''b'' (snd (stop_test 1 ''z'' ''b'' w0))
        = (Inr True, snd (stop_test 1 ''z'' ''b'' w0))"
proof -
  have c: "active_tests w0 ''c'' = None"
    by (simp add: w0_def)
  have a: "active_tests w0 ''a'' = Some ((new_state ''a'' None)\<lparr>status := ''completed''\<rparr>)"
    by (simp add: w0_def)
  have b: "active_tests w0 ''b'' \<noteq> None"
    by (simp add: w0_def)
  have e: "active_tests w0 ''e''
      = Some ((new_state ''e'' None)\<lparr>status := ''running'', process := Some 8\<rparr>)"
    by (simp add: w0_def)
  have t: "status ((new_state ''a'' None)\<lparr>status := ''completed''\<rparr>) \<in> TERMINAL_STATUSES"
    by (simp add: TERMINAL_STATUSES_def)
  have r: "status ((new_state ''e'' None)\<lparr>status := ''running'', process := Some 8\<rparr>) \<noteq> ''stopping''"
    "status ((new_state ''e'' None)\<lparr>status := ''running'', process := Some 8\<rparr>) \<notin> TERMINAL_STATUSES"
    "\<not> (\<exists>p. process ((new_state ''e'' None)\<lparr>status := ''running'', process := Some 8\<rparr>) = Some p
          \<and> terminate_process (procs w0 p) \<noteq> None)"
    by (simp_all add: TERMINAL_STATUSES_def w0_def)
  from stop_test_idempotent [where now = 1 and now_utc = "''z''" and tid = "''c''" and w = w0] c
  have 1: "fst (stop_test 1 ''z'' ''c'' w0) = Inr False" by blast
  from stop_test_idempotent [where now = 1 and now_utc = "''z''" and tid = "''a''" and w = w0] a t
  have 2: "stop_test 1 ''z'' ''a'' w0 = (Inr True, w0)" by blast
  from stop_test_idempotent [where now = 1 and now_utc = "''z''" and tid = "''e''" and w = w0]
  have "\<forall>s. active_tests w0 ''e'' = Some s \<and> status s \<noteq> ''stopping'' \<and> status s \<notin> TERMINAL_STATUSES
          \<longrightarrow> (if \<exists>p. process s = Some p \<and> terminate_process (procs w0 p) \<noteq> None
               then fst (stop_test 1 ''z'' ''e'' w0) = Inl ProcessLookupErrorExc
                    \<and> map_option status (active_tests (snd (stop_test 1 ''z'' ''e'' w0)) ''e'')
                        = Some ''stopping''
               else fst (stop_test 1 ''z'' ''e'' w0) = Inr True
                    \<and> map_option status (active_tests (snd (stop_test 1 ''z'' ''e'' w0)) ''e'')
                        = Some ''stopped'')"
    by (rule conjunct1 [OF conjunct2 [OF conjunct2]])
  with e r have 3: "fst (stop_test 1 ''z'' ''e'' w0) = Inr True" by simp
  from stop_test_idempotent [where now = 1 and now_utc = "''z''" and tid = "''b''" and w = w0
      and now' = 2 and now_utc' = "''y''"] b
  have 4: "stop_test 2 ''y'' ''b'' (snd (stop_test 1 ''z'' ''b'' w0))
        = (Inr True, snd (stop_test 1 ''z'' ''b'' w0))" by simp
  from 1 2 3 4 show ?thesis by blast
qed

text \<open>
  The run \<open>d\<close> is running and its subprocess has exited: \<open>stop_test\<close> does not return
  but raises \<open>ProcessLookupError\<close>, and leaves the status \<open>stopping\<close>.
\<close>

theorem stop_test_counterexample:
  "map_option status (active_tests w0 ''d'') = Some ''running''
   \<and> fst (stop_test 1 ''z'' ''d'' w0) = Inl ProcessLookupErrorExc
   \<and> map_option status (active_tests (snd (stop_test 1 ''z'' ''d'' w0)) ''d'') = Some ''stopping''"
  by (simp add: w0_def stop_test_def stop_test_begin_def TERMINAL_STATUSES_def new_state_def Let_def)

subsection \<open>Status transitions\<close>

lemma finalize_status: "status (finalize_test_run now s) = status s"
  by (simp add: finalize_test_run_def Let_def split: option.splits)

lemma execute_test_end_status:
  "status (execute_test_end raised now s) =
     (if stop_requested s then ''stopped'' else if raised then ''failed'' else ''completed'')"
  by (simp add: execute_test_end_def finalize_status)

lemma stop_test_begin_status:
  "stop_test_begin s =
     (if status s = ''completed'' \<or> status s = ''failed'' \<or> status s = ''stopped''
         \<or> status s = ''stopping''
      then None else Some (s\<lparr>status := ''stopping''\<rparr>))"
  by (simp add: stop_test_begin_def TERMINAL_STATUSES_def)

lemma stop_test_finish_status: "status (stop_test_finish now s) = ''stopped''"
  by (simp add: stop_test_finish_def Let_def)

lemma lifecycle_inv_InRun:
  "pc r = InRun \<Longrightarrow>
   lifecycle_inv r \<longleftrightarrow>
     (status (rstate r) = ''running'' \<and> stoppers r = 0)
     \<or> (status (rstate r) = ''stopping'' \<and> stoppers r = 1)
     \<or> (status (rstate r) = ''stopped'' \<and> stoppers r = 0)"
  by (simp add: lifecycle_inv_def)

lemma lifecycle_inv_Done:
  "pc r = Done \<Longrightarrow>
   lifecycle_inv r \<longleftrightarrow>
     (status (rstate r) = ''stopped'' \<and> stoppers r \<le> 1)
     \<or> (status (rstate r) = ''completed'' \<and> stoppers r = 0)
     \<or> (status (rstate r) = ''failed'' \<and> stoppers r = 0)"
  by (simp add: lifecycle_inv_def)

lemma lifecycle_inv_NotStarted: "pc r = NotStarted \<Longrightarrow> \<not> lifecycle_inv r"
  by (simp add: lifecycle_inv_def)

lemma step_ExecEnd_inv:
  assumes "lifecycle_inv r" and "step (ExecEnd raised now) r = Some (ws, r')"
  shows "lifecycle_inv r' \<and> set ws \<subseteq> status_edges \<union> {(''stopped'', ''stopped'')}"
proof -
  from assms(2) have p: "pc r = InRun"
    by (simp split: if_splits)
  with assms(2) have r': "r' = r\<lparr>rstate := execute_test_end raised now (rstate r), pc := Done\<rparr>"
    and ws: "ws = [(status (rstate r), status (execute_test_end raised now (rstate r)))]"
    by (simp_all add: Let_def)
  from assms(1) p consider
      (A) "status (rstate r) = ''running''" "stoppers r = 0"
    | (B) "status (rstate r) = ''stopping''" "stoppers r = 1"
    | (C) "status (rstate r) = ''stopped''" "stoppers r = 0"
    by (auto simp add: lifecycle_inv_InRun)
  then show ?thesis
  proof cases
    case A
    then show ?thesis
      by (simp add: r' ws lifecycle_inv_Done execute_test_end_status stop_requested_def
          status_edges_def)
  next
    case B
    then show ?thesis
      by (simp add: r' ws lifecycle_inv_Done execute_test_end_status stop_requested_def
          status_edges_def)
  next
    case C
    then show ?thesis
      by (simp add: r' ws lifecycle_inv_Done execute_test_end_status stop_requested_def
          status_edges_def)
  qed
qed

lemma step_StopBegin_inv:
  assumes "lifecycle_inv r" and "step StopBegin r = Some (ws, r')"
  shows "lifecycle_inv r' \<and> set ws \<subseteq> status_edges \<union> {(''stopped'', ''stopped'')}"
proof (cases "status (rstate r) = ''running''")
  case True
  then have b: "stop_test_begin (rstate r) = Some ((rstate r)\<lparr>status := ''stopping''\<rparr>)"
    by (simp add: stop_test_begin_status)
  from assms(1) True have p: "pc r = InRun" and n: "stoppers r = 0"
    by (auto simp add: lifecycle_inv_def split: exec_pc.splits)
  from assms(2) b True have r': "r' = r\<lparr>rstate := (rstate r)\<lparr>status := ''stopping''\<rparr>, stoppers := Suc (stoppers r)\<rparr>"
    and ws: "ws = [(''running'', ''stopping'')]"
    by simp_all
  show ?thesis
    by (simp add: r' ws lifecycle_inv_InRun p n status_edges_def)
next
  case False
  with assms(1) have "stop_test_begin (rstate r) = None"
    by (auto simp add: stop_test_begin_status lifecycle_inv_def split: exec_pc.splits)
  with assms show ?thesis by simp
qed

lemma step_StopFinish_inv:
  assumes "lifecycle_inv r" and "step (StopFinish now) r = Some (ws, r')"
  shows "lifecycle_inv r' \<and> set ws \<subseteq> status_edges \<union> {(''stopped'', ''stopped'')}"
proof -
  from assms(2) have n: "0 < stoppers r"
    by (simp split: if_splits)
  with assms(2) have r': "r' = r\<lparr>rstate := stop_test_finish now (rstate r), stoppers := stoppers r - 1\<rparr>"
    and ws: "ws = [(status (rstate r), ''stopped'')]"
    by (simp_all add: Let_def stop_test_finish_status)
  from assms(1) n consider
      (B) "pc r = InRun" "status (rstate r) = ''stopping''" "stoppers r = 1"
    | (D) "pc r = Done" "status (rstate r) = ''stopped''" "stoppers r = 1"
    by (cases "pc r") (auto simp add: lifecycle_inv_def)
  then show ?thesis
  proof cases
    case B
    then show ?thesis
      by (simp add: r' ws lifecycle_inv_InRun stop_test_finish_status status_edges_def)
  next
    case D
    then show ?thesis
      by (simp add: r' ws lifecycle_inv_Done stop_test_finish_status status_edges_def)
  qed
qed

lemma step_lifecycle_inv:
  assumes "lifecycle_inv r" and "step e r = Some (ws, r')"
  shows "lifecycle_inv r' \<and> set ws \<subseteq> status_edges \<union> {(''stopped'', ''stopped'')}"
proof (cases e)
  case (ExecBegin now cfg)
  with assms(2) have "pc r = NotStarted"
    by (simp split: if_splits)
  with assms(1) show ?thesis
    by (simp add: lifecycle_inv_NotStarted)
next
  case (ExecEnd raised now)
  from assms(2) show ?thesis unfolding ExecEnd by (rule step_ExecEnd_inv [OF assms(1)])
next
  case StopBegin
  from assms(2) show ?thesis unfolding StopBegin by (rule step_StopBegin_inv [OF assms(1)])
next
  case (StopFinish now)
  from assms(2) show ?thesis unfolding StopFinish by (rule step_StopFinish_inv [OF assms(1)])
qed

lemma run_events_lifecycle_inv:
  "lifecycle_inv r \<Longrightarrow> run_events es r = Some (ws, r') \<Longrightarrow>
   lifecycle_inv r' \<and> set ws \<subseteq> status_edges \<union> {(''stopped'', ''stopped'')}"
proof (induction es arbitrary: r ws)
  case Nil
  then show ?case by simp
next
  case (Cons e es)
  from Cons.prems(2) obtain w1 r1 w2 where
    s: "step e r = Some (w1, r1)" and t: "run_events es r1 = Some (w2, r')" and w: "ws = w1 @ w2"
    by (auto split: option.splits)
  from step_lifecycle_inv [OF Cons.prems(1) s]
  have i1: "lifecycle_inv r1" and e1: "set w1 \<subseteq> status_edges \<union> {(''stopped'', ''stopped'')}"
    by simp_all
  from Cons.IH [OF i1 t] e1 w show ?case by auto
qed

lemma execute_test_begin_inv:
  "step (ExecBegin now cfg) (created tid cfg0) = Some (ws, r) \<Longrightarrow>
   lifecycle_inv r \<and> ws = [(''pending'', ''running'')]"
  by (auto simp add: created_def new_state_def execute_test_begin_def lifecycle_inv_def Let_def)

text \<open>
  Claim C4, as the code has it.  When \<open>execute_test\<close> is entered on the freshly created
  (pending) state before any \<open>stop_test\<close> call, every status write of \<open>execute_test\<close>
  and \<open>stop_test\<close>, in any interleaving, follows one of the edges
  pending \<open>\<rightarrow>\<close> running, running \<open>\<rightarrow>\<close> completed, running \<open>\<rightarrow>\<close> failed,
  running \<open>\<rightarrow>\<close> stopping, stopping \<open>\<rightarrow>\<close> stopped, or writes \<open>stopped\<close> over \<open>stopped\<close>
  (the finalisation of \<open>execute_test\<close> after a stop, or the second write of a
  \<open>stop_test\<close> that was overtaken by it); no write changes a terminal status.
\<close>

theorem status_writes_follow_edges:
  assumes "run_events (ExecBegin now cfg # es) (created tid cfg0) = Some (ws, r)"
  shows "set ws \<subseteq> status_edges \<union> {(''stopped'', ''stopped'')}
       \<and> (\<forall>(old, new) \<in> set ws. old \<in> TERMINAL_STATUSES \<longrightarrow> new = old)"
proof -
  from assms obtain w1 r1 w2 where
    s: "step (ExecBegin now cfg) (created tid cfg0) = Some (w1, r1)"
    and t: "run_events es r1 = Some (w2, r)" and w: "ws = w1 @ w2"
    by (auto split: option.splits)
  from execute_test_begin_inv [OF s] have i1: "lifecycle_inv r1" and w1: "w1 = [(''pending'', ''running'')]"
    by simp_all
  from run_events_lifecycle_inv [OF i1 t]
  have "set w2 \<subseteq> status_edges \<union> {(''stopped'', ''stopped'')}" by simp
  with w w1 have sub: "set ws \<subseteq> status_edges \<union> {(''stopped'', ''stopped'')}"
    by (auto simp add: status_edges_def)
  then have "\<forall>(old, new) \<in> set ws. old \<in> TERMINAL_STATUSES \<longrightarrow> new = old"
    by (auto simp add: status_edges_def TERMINAL_STATUSES_def)
  with sub show ?thesis by simp
qed

lemma cancelled_run:
  "map_option fst (run_events [ExecBegin 1 default_config, StopBegin, StopFinish 2, ExecEnd False 3]
      (created ''t'' default_config))
   = Some [(''pending'', ''running''), (''running'', ''stopping''), (''stopping'', ''stopped''),
           (''stopped'', ''stopped'')]"
  by (simp add: created_def new_state_def execute_test_begin_def stop_test_begin_def
      stop_test_finish_def execute_test_end_status stop_requested_def TERMINAL_STATUSES_def Let_def)

theorem status_writes_follow_edges_witness:
  "set [(''pending'', ''running''), (''running'', ''stopping''), (''stopping'', ''stopped''),
        (''stopped'', ''stopped'')] \<subseteq> status_edges \<union> {(''stopped'', ''stopped'')}"
proof -
  from cancelled_run obtain r where
    "run_events (ExecBegin 1 default_config # [StopBegin, StopFinish 2, ExecEnd False 3])
       (created ''t'' default_config)
     = Some ([(''pending'', ''running''), (''running'', ''stopping''), (''stopping'', ''stopped''),
           (''stopped'', ''stopped'')], r)"
    by (cases "run_events [ExecBegin 1 default_config, StopBegin, StopFinish 2, ExecEnd False 3]
      (created ''t'' default_config)") auto
  from status_writes_follow_edges [OF this] show ?thesis by (rule conjunct1)
qed

text \<open>
  \<open>stop_test\<close> does not guard against a pending state and \<open>execute_test\<close> does not look
  at the status it overwrites: a stop before the dispatcher has started writes
  pending \<open>\<rightarrow>\<close> stopping, and the dispatcher then writes stopped \<open>\<rightarrow>\<close> running.
\<close>

theorem status_writes_counterexample:
  "map_option fst (run_events [StopBegin, StopFinish 1, ExecBegin 2 default_config]
      (created ''t'' default_config))
   = Some [(''pending'', ''stopping''), (''stopping'', ''stopped''), (''stopped'', ''running'')]
   \<and> (''pending'', ''stopping'') \<notin> status_edges
   \<and> (''stopped'', ''running'') \<notin> status_edges
   \<and> ''stopped'' \<in> TERMINAL_STATUSES"
  by (simp add: created_def new_state_def execute_test_begin_def stop_test_begin_def
      stop_test_finish_def TERMINAL_STATUSES_def status_edges_def Let_def)

section \<open>Properties of the HTTP client\<close>

lemma attempt_request_retried:
  "retried outc \<Longrightarrow> \<exists>e. attempt_request max_retries attempt outc = Some (None, Some e)"
  by (cases outc) (simp_all add: handle_error_response_def)

lemma attempt_loop_all_retried:
  "\<forall>k \<in> set ks. retried (env k) \<Longrightarrow>
   attempts (attempt_loop max_retries env ks last_error) = length ks
   \<and> backoffs (attempt_loop max_retries env ks last_error)
       = map sleep_for_retry (filter (\<lambda>k. int k < max_retries) ks)
   \<and> (\<exists>c. result (attempt_loop max_retries env ks last_error) = RaisedApiError c)"
proof (induction ks arbitrary: last_error)
  case Nil
  show ?case by simp
next
  case (Cons k ks)
  from Cons.prems have "retried (env k)" by simp
  from attempt_request_retried [OF this]
  obtain e where e: "attempt_request max_retries k (env k) = Some (None, Some e)" by blast
  from Cons.prems have "\<forall>k \<in> set ks. retried (env k)" by simp
  from Cons.IH [OF this, of "Some e"] e show ?case
    by (simp add: Let_def)
qed

lemma filter_below: "0 \<le> m \<Longrightarrow> filter (\<lambda>k. int k < m) [0..<nat (m + 1)] = [0..<nat m]"
proof -
  assume m: "0 \<le> m"
  then have n: "nat (m + 1) = Suc (nat m)" by simp
  have "filter (\<lambda>k. int k < m) [0..<nat m] = [0..<nat m]"
    by (rule filter_True) auto
  with m show ?thesis by (simp add: n)
qed

lemma attempt_loop_success:
  "\<forall>k \<in> set ks. retried (env k) \<Longrightarrow> env a = Response code \<Longrightarrow> \<not> is_error code \<Longrightarrow>
   attempt_loop max_retries env (ks @ a # rest) last_error
     = \<lparr>result = Returned code, attempts = Suc (length ks),
        backoffs = map sleep_for_retry (filter (\<lambda>k. int k < max_retries) ks)\<rparr>"
proof (induction ks arbitrary: last_error)
  case Nil
  then show ?case by (simp add: handle_error_response_def)
next
  case (Cons k ks)
  from Cons.prems have "retried (env k)" by simp
  from attempt_request_retried [OF this]
  obtain e where e: "attempt_request max_retries k (env k) = Some (None, Some e)" by blast
  from Cons.prems have "\<forall>k \<in> set ks. retried (env k)" by simp
  from Cons.IH [OF this Cons.prems(2,3), of "Some e"] e show ?case
    by (simp add: Let_def)
qed

lemma retry_then_success:
  assumes "int n \<le> max_retries" and "\<forall>k < n. retried (env k)"
    and "env n = Response code" and "\<not> is_error code"
  shows "make_api_call max_retries env
     = \<lparr>result = Returned code, attempts = n + 1, backoffs = map sleep_for_retry [0..<n]\<rparr>"
proof -
  from assms(1) have "n < nat (max_retries + 1)" by linarith
  then have "[0..<nat (max_retries + 1)] = [0..<n] @ n # [Suc n..<nat (max_retries + 1)]"
    using upt_add_eq_append [of 0 n "nat (max_retries + 1) - n"]
    by (simp add: upt_conv_Cons)
  moreover have "filter (\<lambda>k. int k < max_retries) [0..<n] = [0..<n]"
    using assms(1) by (intro filter_True) auto
  moreover have "\<forall>k \<in> set [0..<n]. retried (env k)" using assms(2) by simp
  ultimately show ?thesis
    using attempt_loop_success [of "[0..<n]" env n code max_retries _ None] assms(3,4)
    by (simp add: make_api_call_def)
qed

text \<open>
  Claim C2, as the code has it.  The client does not tell 4xx from 5xx: every attempt
  that ends in an error response (status 400 to 599), a timeout, a network error or
  another exception that is not a \<open>ValueError\<close> is tried again, after a backoff of
  \<open>min (2 ^ attempt) 10\<close> seconds, up to \<open>max_retries\<close> additional attempts.  When all
  \<open>max_retries + 1\<close> attempts fail the call raises an \<open>ApiError\<close> and the request is
  recorded as one failure.
\<close>

theorem retry_policy:
  assumes "0 \<le> max_retries" and "\<forall>k \<le> nat max_retries. retried (env k)"
  shows "attempts (make_api_call max_retries env) = nat max_retries + 1
       \<and> backoffs (make_api_call max_retries env) = map (\<lambda>a. min (2 ^ a) 10) [0..<nat max_retries]
       \<and> (\<exists>c. result (make_api_call max_retries env) = RaisedApiError c)
       \<and> failure_count (record_outcome (result (make_api_call max_retries env)) m) = failure_count m + 1
       \<and> success_count (record_outcome (result (make_api_call max_retries env)) m) = success_count m"
proof -
  from assms have all: "\<forall>k \<in> set [0..<nat (max_retries + 1)]. retried (env k)"
    by auto
  from attempt_loop_all_retried [OF all, of max_retries None]
  have a: "attempts (make_api_call max_retries env) = nat (max_retries + 1)"
    and b: "backoffs (make_api_call max_retries env)
       = map sleep_for_retry (filter (\<lambda>k. int k < max_retries) [0..<nat (max_retries + 1)])"
    and c: "\<exists>c. result (make_api_call max_retries env) = RaisedApiError c"
    by (simp_all add: make_api_call_def)
  from b assms(1) have b': "backoffs (make_api_call max_retries env) = map (\<lambda>a. min (2 ^ a) 10) [0..<nat max_retries]"
    by (simp add: filter_below sleep_for_retry_def)
  from c obtain sc where sc: "result (make_api_call max_retries env) = RaisedApiError sc" by blast
  have d: "failure_count (record_outcome (result (make_api_call max_retries env)) m) = failure_count m + 1
       \<and> success_count (record_outcome (result (make_api_call max_retries env)) m) = success_count m"
    by (simp add: sc record_outcome_def)
  from a b' c d assms(1) show ?thesis by (simp add: nat_add_distrib)
qed

theorem retry_policy_witness:
  "attempts (make_api_call 3 always_404) = 4
   \<and> backoffs (make_api_call 3 always_404) = [1, 2, 4]
   \<and> (\<exists>c. result (make_api_call 3 always_404) = RaisedApiError c)
   \<and> failure_count (record_outcome (result (make_api_call 3 always_404)) default_metrics) = 1"
proof -
  have h: "\<forall>k \<le> nat 3. retried (always_404 k)"
    by (simp add: is_error_def always_404_def)
  have u: "[0..<3::nat] = [0, 1, 2]"
    by (simp add: upt_rec)
  from retry_policy [of 3 always_404 default_metrics, OF _ h]
  show ?thesis by (simp add: u default_metrics_def)
qed

text \<open>
  A backend that always answers 404: with \<open>max_retries = 3\<close> the client makes four
  attempts and sleeps 1, 2 and 4 seconds between them.
\<close>

theorem retry_policy_counterexample:
  "400 \<le> (404::int) \<and> (404::int) \<le> 499
   \<and> attempts (make_api_call 3 always_404) = 4
   \<and> backoffs (make_api_call 3 always_404) = [1, 2, 4]"
  by (simp add: make_api_call_def upt_rec handle_error_response_def is_error_def
      sleep_for_retry_def Let_def always_404_def)

lemma retries_then_success_example:
  "make_api_call 2 (\<lambda>k. if k < 2 then Response 500 else Response 200)
   = \<lparr>result = Returned 200, attempts = 3, backoffs = [1, 2]\<rparr>"
  by (simp add: make_api_call_def upt_rec handle_error_response_def is_error_def
      sleep_for_retry_def Let_def)

section \<open>Properties of the floats\<close>

subsection \<open>Rounding to an integer\<close>

lemma round_half_even_cases:
  "round_half_even x = \<lfloor>x\<rfloor> \<or> round_half_even x = \<lfloor>x\<rfloor> + 1"
  by (simp add: round_half_even_def Let_def)

lemma round_half_even_of_int [simp]: "round_half_even (of_int n) = n"
  by (simp add: round_half_even_def Let_def)

lemma round_half_even_0 [simp]: "round_half_even 0 = 0"
  using round_half_even_of_int [of 0] by simp

lemma round_half_even_mono: "x \<le> y \<Longrightarrow> round_half_even x \<le> round_half_even y"
proof -
  assume xy: "x \<le> y"
  then have fl: "\<lfloor>x\<rfloor> \<le> \<lfloor>y\<rfloor>" by (rule floor_mono)
  show ?thesis
  proof (cases "\<lfloor>x\<rfloor> = \<lfloor>y\<rfloor>")
    case True
    with xy have "x - of_int \<lfloor>x\<rfloor> \<le> y - of_int \<lfloor>y\<rfloor>" by simp
    with True show ?thesis
      by (auto simp add: round_half_even_def Let_def)
  next
    case False
    with fl have "\<lfloor>x\<rfloor> + 1 \<le> \<lfloor>y\<rfloor>" by simp
    moreover have "round_half_even x \<le> \<lfloor>x\<rfloor> + 1"
      using round_half_even_cases [of x] by auto
    moreover have "\<lfloor>y\<rfloor> \<le> round_half_even y"
      using round_half_even_cases [of y] by auto
    ultimately show ?thesis by linarith
  qed
qed


lemma round_half_even_ge: "of_int n \<le> x \<Longrightarrow> n \<le> round_half_even x"
  using round_half_even_mono [of "of_int n" x] by simp


subsection \<open>Binades\<close>

lemma powr_powi: "(2::real) powr of_int k = 2 powi k"
  by (simp add: powr_real_of_int')

lemma powr_powi_Suc: "(2::real) powr (of_int k + 1) = 2 powi (k + 1)"
  using powr_powi [of "k + 1"] by simp

lemma floor_log2_bounds:
  assumes "0 < x"
  shows "2 powi \<lfloor>log 2 x\<rfloor> \<le> x" and "x < 2 powi (\<lfloor>log 2 x\<rfloor> + 1)"
proof -
  from assms have "2 powr (of_int \<lfloor>log 2 x\<rfloor>) \<le> x \<and> x < 2 powr (of_int (\<lfloor>log 2 x\<rfloor> + 1))"
    using floor_log_eq_powr_iff [of x 2 "\<lfloor>log 2 x\<rfloor>"] by simp
  then show "2 powi \<lfloor>log 2 x\<rfloor> \<le> x" and "x < 2 powi (\<lfloor>log 2 x\<rfloor> + 1)"
    by (simp_all add: powr_powi powr_powi_Suc)
qed

lemma floor_log2_eq:
  assumes "2 powi e \<le> x" and "x < 2 powi (e + 1)"
  shows "\<lfloor>log 2 x\<rfloor> = e"
proof -
  have "0 < (2::real) powi e" by simp
  with assms(1) have pos: "0 < x" by linarith
  from assms have "2 powr (of_int e) \<le> x \<and> x < 2 powr (of_int (e + 1))"
    by (simp add: powr_powi powr_powi_Suc)
  with pos show ?thesis
    using floor_log_eq_powr_iff [of x 2 e] by simp
qed


lemma binade_neg [simp]: "binade (- x) = binade x"
  by (simp add: binade_def)

lemma binade_abs [simp]: "binade \<bar>x\<bar> = binade x"
  by (simp add: binade_def)



lemma binade_eq:
  assumes "- 1022 \<le> e" and "2 powi e \<le> \<bar>x\<bar>" and "\<bar>x\<bar> < 2 powi (e + 1)"
  shows "binade x = e"
  using floor_log2_eq [OF assms(2,3)] assms(1) by (simp add: binade_def)

lemma binade_le:
  assumes "x \<noteq> 0" and "- 1022 \<le> k" and "\<bar>x\<bar> < 2 powi (k + 1)"
  shows "binade x \<le> k"
proof -
  have "\<lfloor>log 2 \<bar>x\<bar>\<rfloor> \<le> k"
  proof (rule ccontr)
    assume "\<not> \<lfloor>log 2 \<bar>x\<bar>\<rfloor> \<le> k"
    then have "k + 1 \<le> \<lfloor>log 2 \<bar>x\<bar>\<rfloor>" by simp
    then have "(2::real) powi (k + 1) \<le> 2 powi \<lfloor>log 2 \<bar>x\<bar>\<rfloor>"
      by (intro power_int_increasing) simp_all
    also from assms(1) have "\<dots> \<le> \<bar>x\<bar>"
      by (intro floor_log2_bounds) simp
    finally show False using assms(3) by simp
  qed
  with assms(2) show ?thesis by (simp add: binade_def)
qed


subsection \<open>Rounding to a double\<close>

lemma quantum_pos [simp]: "0 < quantum x"
  by (simp add: quantum_def)

lemma quantum_nonzero [simp]: "quantum x \<noteq> 0"
  by (simp add: quantum_def)

lemma quantum_nonneg [simp]: "0 \<le> quantum x"
  by (simp add: quantum_def)

lemma quantum_neg [simp]: "quantum (- x) = quantum x"
  by (simp add: quantum_def)


lemma round_value_0 [simp]: "round_value 0 = 0"
  by (simp add: round_value_def)

lemma round_value_nonneg: "0 \<le> x \<Longrightarrow> 0 \<le> round_value x"
proof -
  assume "0 \<le> x"
  then have "of_int 0 \<le> x / quantum x" by simp
  from round_half_even_ge [OF this] show ?thesis
    by (simp add: round_value_def)
qed





lemma round_value_exact:
  assumes "x / quantum x = of_int n"
  shows "round_value x = x"
proof -
  have "round_value x = of_int n * quantum x"
    by (simp add: round_value_def assms)
  also have "\<dots> = (x / quantum x) * quantum x" by (simp add: assms)
  also have "\<dots> = x" by simp
  finally show ?thesis .
qed





lemma round_double_not_NaN [simp]: "round_double x \<noteq> NaN"
  by (simp add: round_double_def)


lemma round_double_FinI:
  assumes "\<bar>round_value x\<bar> < 2 ^ 1024"
  shows "round_double x = Fin (round_value x)"
  using assms by (simp add: round_double_def)



lemma round_double_nonneg:
  assumes "0 \<le> x"
  shows "round_double x = PInf \<or> (\<exists>y. round_double x = Fin y \<and> 0 \<le> y)"
proof (cases "x = 0")
  case True
  then show ?thesis by (simp add: round_double_def)
next
  case False
  with assms have "0 < x" by simp
  moreover from assms have "0 \<le> round_value x" by (rule round_value_nonneg)
  ultimately show ?thesis by (simp add: round_double_def)
qed



lemma round_double_exact:
  assumes "x = of_int n * 2 powi k" and "\<bar>n\<bar> < 2 ^ 53" and "- 1074 \<le> k" and "k \<le> 971"
  shows "round_double x = Fin x"
proof (cases "x = 0")
  case True
  then show ?thesis by (simp add: round_double_def)
next
  case False
  from assms(2) have "\<bar>of_int n :: real\<bar> < 2 ^ 53"
    by (metis of_int_abs of_int_less_iff of_int_numeral of_int_power)
  then have "\<bar>x\<bar> < 2 ^ 53 * 2 powi k"
    unfolding assms(1) abs_mult by (simp add: mult_strict_right_mono)
  also have "(2::real) ^ 53 * 2 powi k = 2 powi (53 + k)"
    using power_int_add [of "2::real" 53 k] by simp
  finally have ub: "\<bar>x\<bar> < 2 powi (k + 52 + 1)" by (simp add: add.commute add.left_commute)
  from assms(3) have "- 1022 \<le> k + 52" by simp
  from binade_le [OF False this ub] have e: "binade x \<le> k + 52" .
  define j where "j = nat (k + 52 - binade x)"
  from e have j: "int j = k + 52 - binade x" by (simp add: j_def)
  have "(2::real) powi k = 2 powi (int j + (binade x - 52))"
    by (simp add: j)
  also have "\<dots> = 2 ^ j * quantum x"
    using power_int_add [of "2::real" "int j" "binade x - 52"] by (simp add: quantum_def)
  finally have "x = of_int (n * 2 ^ j) * quantum x"
    by (simp add: assms(1))
  then have "x / quantum x = of_int (n * 2 ^ j)"
    by (simp add: nonzero_divide_eq_eq)
  from round_value_exact [OF this] have rv: "round_value x = x" .
  from assms(4) have "(2::real) powi (k + 52 + 1) \<le> 2 powi 1024"
    by (intro power_int_increasing) simp_all
  with ub have "\<bar>x\<bar> < 2 ^ 1024" by simp
  with rv show ?thesis by (simp add: round_double_FinI)
qed

lemma round_double_of_int:
  assumes "\<bar>n\<bar> < 2 ^ 53"
  shows "round_double (of_int n) = Fin (of_int n)"
  using round_double_exact [of "of_int n" n 0] assms by simp

lemma round_double_numeral [simp]:
  "numeral w < (2 ^ 53 :: int) \<Longrightarrow> round_double (numeral w) = Fin (numeral w)"
  using round_double_of_int [of "numeral w"] by simp

lemma round_double_0 [simp]: "round_double 0 = Fin 0"
  by (simp add: round_double_def)

lemma round_double_1 [simp]: "round_double 1 = Fin 1"
  using round_double_of_int [of 1] by simp

lemma round_value_powi:
  assumes "- 1022 \<le> e"
  shows "round_value (2 powi e) = 2 powi e"
proof -
  have "(2::real) powi e < 2 powi (e + 1)"
    by (intro power_int_strict_increasing) simp_all
  then have b: "binade (2 powi e) = e"
    by (intro binade_eq [OF assms]) simp_all
  have "(2::real) powi e / 2 powi (e - 52) = 2 powi (e - (e - 52))"
    by (subst power_int_diff [of 2 e "e - 52"]) simp_all
  then have "(2::real) powi e / quantum (2 powi e) = of_int (2 ^ 52)"
    by (simp add: quantum_def b)
  then show ?thesis by (rule round_value_exact)
qed




subsection \<open>Comparisons\<close>

lemma fle_Fin [simp]: "fle (Fin a) (Fin b) = (a \<le> b)"
  by (auto simp add: fle_def)

lemma fle_NaN [simp]: "\<not> fle NaN y" "\<not> fle x NaN"
  by (cases x; simp add: fle_def)+

lemma fle_PInf [simp]: "fle (Fin a) PInf" "fle PInf (Fin a) = False" "fle PInf PInf"
  by (simp_all add: fle_def)

lemma fle_NInf [simp]: "fle NInf (Fin a)" "fle (Fin a) NInf = False" "fle NInf NInf"
  "fle NInf PInf" "fle PInf NInf = False"
  by (simp_all add: fle_def)


section \<open>Properties of the distributions\<close>

lemma round_double_neg_numeral [simp]:
  "numeral w < (2 ^ 53 :: int) \<Longrightarrow> round_double (- numeral w) = Fin (- numeral w)"
  using round_double_of_int [of "- numeral w"] by simp

lemma float_of_int_small:
  "\<bar>i\<bar> < 2 ^ 53 \<Longrightarrow> float_of_int i = Inr (Fin (of_int i))"
  by (simp add: float_of_int_def round_double_of_int)

lemma float_of_int_numeral [simp]:
  "numeral w < (2 ^ 53 :: int) \<Longrightarrow> float_of_int (numeral w) = Inr (Fin (numeral w))"
  using float_of_int_small [of "numeral w"] by simp

lemma float_of_int_neg_numeral [simp]:
  "numeral w < (2 ^ 53 :: int) \<Longrightarrow> float_of_int (- numeral w) = Inr (Fin (- numeral w))"
  using float_of_int_small [of "- numeral w"] by simp

lemma round_double_m1 [simp]: "round_double (- 1) = Fin (- 1)"
  using round_double_of_int [of "- 1"] by simp

lemma float_of_int_m1 [simp]: "float_of_int (- 1) = Inr (Fin (- 1))"
  by (simp add: float_of_int_def)

lemma float_of_int_0 [simp]: "float_of_int 0 = Inr (Fin 0)"
  by (simp add: float_of_int_def)

lemma float_of_int_1 [simp]: "float_of_int 1 = Inr (Fin 1)"
  by (simp add: float_of_int_def)

subsection \<open>Composite validation\<close>

lemma validate_constant_empty:
  "validate_distribution_config (Suc n) lib ''constant'' [] path = Some (Inr [])"
  by (simp add: get_plugin_class_def constant_initialize_def constant_validate_def
      validate_numeric_def)

text \<open>
  Claim C8.  On the mix configuration whose single component is
  \<open>{weight: -1, distribution: {name: constant, config: {}}}\<close> the validation helper
  returns (it does not raise, and any nesting bound of at least two is enough) exactly
  the list with the one string \<open>components[0].weight must be > 0\<close>.
\<close>

theorem mix_negative_weight_errors:
  "validate_distribution_config (Suc (Suc n)) lib ''mix'' mix_config_negative_weight ''config''
     = Some (Inr [''components[0].weight must be > 0''])"
  by (simp add: get_plugin_class_def validate_mix_config_def mix_config_negative_weight_def
    dict_get_def distribution_errors_def normalize_distribution_config_def
    constant_initialize_def constant_validate_def validate_numeric_def)

theorem mix_negative_weight_errors_witness:
  "validate_distribution_config 2 no_lib ''mix'' mix_config_negative_weight ''config''
     = Some (Inr [''components[0].weight must be > 0''])"
  using mix_negative_weight_errors [of 0 no_lib]
  by (simp add: numeral_2_eq_2)

subsection \<open>Step distribution\<close>

lemma fle_trans: "fle a b \<Longrightarrow> fle b c \<Longrightarrow> fle a c"
  by (cases a; cases b; cases c) (auto simp add: fle_def)

lemma float_key_le:
  "a \<noteq> NaN \<Longrightarrow> b \<noteq> NaN \<Longrightarrow> float_key a \<le> float_key b \<longleftrightarrow> fle a b"
  by (cases a; cases b) (simp_all add: less_eq_prod_def)

lemma step_loop_filter:
  assumes "sorted (map (\<lambda>s. float_key (fst s)) steps)"
    and "\<forall>s \<in> set steps. fst s \<noteq> NaN"
  shows "step_loop steps t rate =
     (case filter (\<lambda>s. fle (fst s) t) steps of [] \<Rightarrow> rate | x # xs \<Rightarrow> snd (last (x # xs)))"
  using assms
proof (induction steps arbitrary: rate)
  case Nil
  show ?case by simp
next
  case (Cons s steps)
  obtain st sr where s: "s = (st, sr)" by (cases s)
  from Cons.prems have srt: "sorted (map (\<lambda>s. float_key (fst s)) steps)"
    and le: "\<forall>x \<in> set steps. float_key st \<le> float_key (fst x)"
    and nn: "\<forall>s \<in> set steps. fst s \<noteq> NaN" and st: "st \<noteq> NaN"
    by (simp_all add: s)
  show ?case
  proof (cases "fle st t")
    case True
    with Cons.IH [OF srt nn, of sr] show ?thesis
      by (simp add: s split: list.splits)
  next
    case False
    have "\<not> fle (fst x) t" if "x \<in> set steps" for x
    proof
      assume "fle (fst x) t"
      moreover from le nn st that have "fle st (fst x)"
        by (simp add: float_key_le)
      ultimately have "fle st t" by (rule fle_trans [rotated])
      with False show False by simp
    qed
    then have "filter (\<lambda>s. fle (fst s) t) steps = []"
      by (auto simp add: filter_empty_conv)
    with False show ?thesis by (simp add: s)
  qed
qed

lemma step_key_fst: "step_key a \<le> step_key b \<Longrightarrow> float_key (fst a) \<le> float_key (fst b)"
  by (auto simp add: step_key_def)

lemma sorted_step_key:
  "sorted (map step_key xs) \<Longrightarrow> sorted (map (\<lambda>s. float_key (fst s)) xs)"
  by (induction xs) (auto simp add: step_key_fst)

lemma py_sorted_sorted:
  assumes "sorted_keeps_elements lib"
    and "list_all (\<lambda>s. fst s \<noteq> NaN \<and> snd s \<noteq> NaN) (py_sorted lib pairs)"
  shows "sorted (map (\<lambda>s. float_key (fst s)) (py_sorted lib pairs))"
proof (cases "list_all (\<lambda>s. fst s \<noteq> NaN \<and> snd s \<noteq> NaN) pairs")
  case True
  then show ?thesis
    by (simp add: py_sorted_def sorted_step_key)
next
  case False
  then have "py_sorted lib pairs = sorted_unordered lib pairs"
    by (simp add: py_sorted_def)
  with assms have "list_all (\<lambda>s. fst s \<noteq> NaN \<and> snd s \<noteq> NaN) pairs"
    by (simp add: sorted_keeps_elements_def list_all_iff)
  with False show ?thesis by simp
qed

lemma parse_steps_sorted:
  assumes "sorted_keeps_elements lib" and "parse_steps lib v = Inr (steps, e)"
    and "list_all (\<lambda>s. fst s \<noteq> NaN \<and> snd s \<noteq> NaN) steps"
  shows "sorted (map (\<lambda>s. float_key (fst s)) steps)"
proof (cases "\<exists>pairs. steps = py_sorted lib pairs")
  case True
  with assms(1,3) show ?thesis by (auto simp add: py_sorted_sorted)
next
  case False
  with assms(2) have "steps = []"
    by (auto simp add: parse_steps_def split: if_splits prod.splits pyval.splits
        sum.splits option.splits bool.splits)
  then show ?thesis by simp
qed

lemma step_initialize_sorted:
  assumes "sorted_keeps_elements lib"
    and "step_initialize lib cfg = Inr (StepDistribution steps d e)"
    and "list_all (\<lambda>s. fst s \<noteq> NaN \<and> snd s \<noteq> NaN) steps"
  shows "sorted (map (\<lambda>s. float_key (fst s)) steps)"
proof -
  from assms(2) obtain e2 where "parse_steps lib (dict_get cfg ''steps'') = Inr (steps, e2)"
    by (auto simp add: step_initialize_def split: sum.splits prod.splits if_splits)
  from parse_steps_sorted [OF assms(1) this assms(3)] show ?thesis .
qed

text \<open>
  Claim C5, as the code has it.  For every initialised step distribution without parse
  error, with a non-empty list of steps in which no NaN occurs, \<open>get_rate\<close> returns
  \<open>max(0.0, x)\<close>, where \<open>x\<close> is the rate of the last step (in the sorted order) whose
  time is at most \<open>t\<close>, or \<open>default_rps\<close> when there is none.  With an empty list of
  steps, or after a parse error, it returns \<open>max(0.0, target_rps)\<close>.  Of the library the
  result assumes only that \<open>sorted\<close> returns the elements it was given.
\<close>

theorem step_rate_last_step:
  assumes "step_initialize lib cfg = Inr (StepDistribution steps d e)"
    and "sorted_keeps_elements lib"
    and "list_all (\<lambda>s. fst s \<noteq> NaN \<and> snd s \<noteq> NaN) steps"
  shows "get_rate lib (StepDistribution steps d e) t r g =
     Inr (if e \<or> steps = [] then py_max (Fin 0) r
          else py_max (Fin 0) (case filter (\<lambda>s. fle (fst s) t) steps of
                                 [] \<Rightarrow> d
                               | x # xs \<Rightarrow> snd (last (x # xs))), g)"
proof -
  from assms(3) have "\<forall>s \<in> set steps. fst s \<noteq> NaN"
    by (simp add: list_all_iff)
  from step_loop_filter [OF step_initialize_sorted [OF assms(2,1,3)] this, of t d]
  show ?thesis
    by (simp add: step_get_rate_def)
qed

lemma no_lib_sorted_keeps_elements: "sorted_keeps_elements no_lib"
  by (simp add: sorted_keeps_elements_def no_lib_def)

lemma step_initialize_two:
  "step_initialize no_lib step_config_two
     = Inr (StepDistribution [(Fin 10, Fin 50), (Fin 30, Fin 100)] (Fin 10) False)"
  by (simp add: step_initialize_def step_config_two_def dict_has_def dict_get_def
      parse_float_def cast_float_def parse_steps_def parse_json_or_list_def py_sorted_def
      step_key_def)

theorem step_rate_last_step_witness:
  "get_rate no_lib (StepDistribution [(Fin 10, Fin 50), (Fin 30, Fin 100)] (Fin 10) False)
       (Fin 20) (Fin 7) no_noise = Inr (Fin 50, no_noise)
   \<and> get_rate no_lib (StepDistribution [(Fin 10, Fin 50), (Fin 30, Fin 100)] (Fin 10) False)
       (Fin 5) (Fin 7) no_noise = Inr (Fin 10, no_noise)"
  using step_rate_last_step [OF step_initialize_two no_lib_sorted_keeps_elements, of "Fin 20" "Fin 7" no_noise]
    step_rate_last_step [OF step_initialize_two no_lib_sorted_keeps_elements, of "Fin 5" "Fin 7" no_noise]
  by (simp add: py_max_def)

text \<open>
  Without steps the evaluator falls back to \<open>target_rps\<close>, not to \<open>default_rps\<close>; and
  a negative step rate is clamped to zero.  With the steps \<open>[[NaN, 5], [1, 7]]\<close>, which
  \<open>sorted\<close> leaves in this order, the loop stops at the first step and the rate at
  \<open>t = 2\<close> is \<open>default_rps\<close>, not 7.
\<close>

theorem step_rate_counterexample:
  "step_initialize no_lib [(''default_rps'', PInt 5)] = Inr (StepDistribution [] (Fin 5) False)
   \<and> get_rate no_lib (StepDistribution [] (Fin 5) False) (Fin 0) (Fin 7) no_noise
       = Inr (Fin 7, no_noise)
   \<and> step_initialize no_lib [(''steps'', PList [PList [PInt 0, PInt (- 3)]])]
       = Inr (StepDistribution [(Fin 0, Fin (- 3))] (Fin 0) False)
   \<and> get_rate no_lib (StepDistribution [(Fin 0, Fin (- 3))] (Fin 0) False) (Fin 1) (Fin 7) no_noise
       = Inr (Fin 0, no_noise)
   \<and> step_initialize no_lib [(''steps'', PList [PList [PFloat NaN, PInt 5], PList [PInt 1, PInt 7]])]
       = Inr (StepDistribution [(NaN, Fin 5), (Fin 1, Fin 7)] (Fin 0) False)
   \<and> get_rate no_lib (StepDistribution [(NaN, Fin 5), (Fin 1, Fin 7)] (Fin 0) False)
         (Fin 2) (Fin 9) no_noise
       = Inr (Fin 0, no_noise)"
  by (simp add: step_initialize_def dict_has_def dict_get_def
      parse_float_def cast_float_def parse_steps_def parse_json_or_list_def py_sorted_def
      step_get_rate_def py_max_def no_lib_def)

subsection \<open>Sequence distribution\<close>







lemma trunc_zero_quarter [simp]: "trunc_zero (1 / 4) = 0" "trunc_zero (3 / 4) = 0"
   "trunc_zero (5 / 4) = 1" "trunc_zero (7 / 4) = 1" "trunc_zero (3 / 2) = 1"
  by (simp_all add: trunc_zero_def)




lemma trunc_zero_below_ten [simp]: "trunc_zero (below_ten / 20) = 0"
proof -
  have "0 \<le> below_ten / 20" "below_ten / 20 < 1"
    by (simp_all add: below_ten_def)
  then show ?thesis
    by (simp add: trunc_zero_def floor_eq_iff)
qed



subsection \<open>Parsing\<close>

lemma parse_float_Some:
  "parse_float lib v (Some d) = Inr (x, parsed) \<Longrightarrow> \<exists>y. x = Some y"
  by (cases v) (auto simp add: parse_float_def split: sum.splits if_splits)

subsection \<open>Exceptions of the evaluators\<close>

lemma raises_only_Inr [simp]: "raises_only b (Inr x)"
  by (simp add: raises_only_def)









subsection \<open>Stage timeline\<close>

lemma timeline_Cons:
  "fst (finalize_stage_timeline e (d # ds)) = e # fst (finalize_stage_timeline (fadd e d) ds)"
  by (simp add: case_prod_beta)










subsection \<open>Non-negative rates\<close>



lemma round_double_fle_zero: "0 \<le> x \<Longrightarrow> fle (Fin 0) (round_double x)"
  using round_double_nonneg [of x] by auto

lemma fmul_nonneg: "0 \<le> a \<Longrightarrow> 0 \<le> b \<Longrightarrow> fle (Fin 0) (fmul (Fin a) (Fin b))"
  by (simp add: round_double_fle_zero)

lemma fadd_nonneg: "fle (Fin 0) x \<Longrightarrow> fle (Fin 0) y \<Longrightarrow> fle (Fin 0) (fadd x y)"
  by (cases x; cases y) (simp_all add: round_double_fle_zero)






lemma nonneg_rate_Inr [simp]: "nonneg_rate (Inr (x, g)) = fle (Fin 0) x"
  by (simp add: nonneg_rate_def)

lemma nonneg_rate_Inl [simp]: "nonneg_rate (Inl e)"
  by (simp add: nonneg_rate_def)









lemma timeline_nth_0:
  "ds \<noteq> [] \<Longrightarrow> fst (finalize_stage_timeline e ds) ! 0 = e"
  by (cases ds) (simp_all add: timeline_Cons del: finalize_stage_timeline.simps(2))















lemma round_value_1 [simp]: "round_value 1 = 1"
  using round_value_powi [of 0] by simp


lemma no_lib_sin_0 [simp]: "libm_sin no_lib 0 = 0"
  by (simp add: no_lib_def)




lemma mix_unvalidated_initialize:
  "initialize 2 no_lib MixC mix_config_negative_weight = Some (Inr mix_unvalidated)"
  by (simp add: numeral_2_eq_2 mix_initialize_def mix_config_negative_weight_def dict_get_def
      parse_list_field_def parse_json_or_list_def to_float_def get_plugin_class_def
      constant_initialize_def set_normalized_weights_def mix_unvalidated_def
      py_sum_def no_lib_def)







end
